theory Spec2Isabelle
  imports Complex_Main "HOL-Library.Word"
begin

section \<open>The matting engine: processImageForTransparency (src/App.tsx, lines 184-257)\<close>

text \<open>
  The pixel buffer of a canvas is a \<open>Uint8ClampedArray\<close>: a flat, row-major list of
  bytes, four per pixel (red, green, blue, alpha). JavaScript numbers that only ever hold
  small integers (pixel coordinates, colour differences) are modelled as \<open>int\<close> and
  \<open>nat\<close>.
\<close>

type_synonym byte = "8 word"

definition COLOR_DISTANCE_THRESHOLD :: int where
  "COLOR_DISTANCE_THRESHOLD = 20"

text \<open>A decoded image element: its pixel size and the raster that \<open>drawImage\<close> paints.\<close>

record html_image =
  el_width :: nat
  el_height :: nat
  el_pixels :: "byte list"

text \<open>The rectangle \<open>{x, y, width, height}\<close> of a content bound.\<close>

record 'n bounds =
  cb_x :: 'n
  cb_y :: 'n
  cb_width :: 'n
  cb_height :: 'n

text \<open>The interface \<open>ImageProcessingResult\<close>.\<close>

record processing_result =
  transparentImage :: html_image
  resultBounds :: "int bounds"

text \<open>
  What the browser does around the pixel pass: the image may fail to load
  (\<open>img.onerror\<close>), the canvas may give no 2d context, \<open>getImageData\<close> may throw
  (a tainted canvas, or a canvas of zero width or height), and the re-encoded image may
  fail to load (\<open>transparentImage.onerror\<close>). The first, second and fourth reject the
  promise; the third is caught and resolved with the original image.
\<close>

datatype matte_error = ImageLoadError | NoCanvasContext | EncodedImageError

record canvas_env =
  image_loads :: bool
  context_available :: bool
  pixels_readable :: bool
  encoded_image_loads :: bool

text \<open>
  The first loop, \<open>for (let i = 0; i < data.length; i += 4)\<close>. A channel read beyond
  the end of the array is \<open>undefined\<close>, the distance is then \<open>NaN\<close> and the
  comparison is false, so nothing is written; a write beyond the end of a typed array is
  ignored, as \<open>list_update\<close> ignores it.
\<close>

function matteLoop :: "int \<Rightarrow> int \<Rightarrow> int \<Rightarrow> nat \<Rightarrow> byte list \<Rightarrow> byte list" where
  "matteLoop bgR bgG bgB i data =
     (if i < length data then
        (if i + 2 < length data then
           (let r = uint (data ! i);
                g = uint (data ! (i + 1));
                b = uint (data ! (i + 2));
                distanceSquared = (r - bgR)\<^sup>2 + (g - bgG)\<^sup>2 + (b - bgB)\<^sup>2
            in matteLoop bgR bgG bgB (i + 4)
                 (if distanceSquared < COLOR_DISTANCE_THRESHOLD * COLOR_DISTANCE_THRESHOLD
                  then data[i + 3 := 0] else data))
         else matteLoop bgR bgG bgB (i + 4) data)
      else data)"
  by pat_completeness auto
termination
  by (relation "measure (\<lambda>(bgR, bgG, bgB, i, data). length data - i)") auto

text \<open>The running box \<open>minX, minY, maxX, maxY\<close> of the second loop.\<close>

record bbox =
  minX :: int
  minY :: int
  maxX :: int
  maxY :: int

text \<open>
  The body of the inner loop at column \<open>x\<close> of row \<open>y\<close>: \<open>alpha > 0\<close> is false for
  an \<open>undefined\<close> read beyond the end of the array.
\<close>

definition scanPixel :: "byte list \<Rightarrow> nat \<Rightarrow> nat \<Rightarrow> nat \<Rightarrow> bbox \<Rightarrow> bbox" where
  "scanPixel data w y x b =
     (let k = (y * w + x) * 4 + 3 in
      if k < length data \<and> 0 < uint (data ! k) then
        \<lparr> minX = (if int x < minX b then int x else minX b),
          minY = (if int y < minY b then int y else minY b),
          maxX = (if int x > maxX b then int x else maxX b),
          maxY = (if int y > maxY b then int y else maxY b) \<rparr>
      else b)"

definition scanRow :: "byte list \<Rightarrow> nat \<Rightarrow> nat \<Rightarrow> bbox \<Rightarrow> bbox" where
  "scanRow data w y b = fold (scanPixel data w y) [0..<w] b"

definition scanImage :: "byte list \<Rightarrow> nat \<Rightarrow> nat \<Rightarrow> bbox \<Rightarrow> bbox" where
  "scanImage data w h b = fold (scanRow data w) [0..<h] b"

text \<open>The choice between the tight bound and the fallback (lines 241-243).\<close>

definition boundsOf :: "nat \<Rightarrow> nat \<Rightarrow> bbox \<Rightarrow> int bounds" where
  "boundsOf w h b =
     (if maxX b \<ge> minX b \<and> maxY b \<ge> minY b
      then \<lparr> cb_x = minX b, cb_y = minY b,
             cb_width = maxX b - minX b + 1, cb_height = maxY b - minY b + 1 \<rparr>
      else \<lparr> cb_x = 0, cb_y = 0, cb_width = int w, cb_height = int h \<rparr>)"

text \<open>
  The pixel pass on the buffer of a \<open>w\<close> by \<open>h\<close> canvas: background colour from the
  top-left pixel, the alpha loop, then the bounding-box loop on the updated buffer.
\<close>

definition mattePixels :: "nat \<Rightarrow> nat \<Rightarrow> byte list \<Rightarrow> byte list \<times> int bounds" where
  "mattePixels w h data =
     (let bgR = uint (data ! 0);
          bgG = uint (data ! 1);
          bgB = uint (data ! 2);
          data' = matteLoop bgR bgG bgB 0 data;
          box = scanImage data' w h \<lparr> minX = int w, minY = int h, maxX = - 1, maxY = - 1 \<rparr>
      in (data', boundsOf w h box))"

definition processImageForTransparency ::
    "canvas_env \<Rightarrow> html_image \<Rightarrow> matte_error + processing_result" where
  "processImageForTransparency env img =
     (if \<not> image_loads env then Inl ImageLoadError
      else if \<not> context_available env then Inl NoCanvasContext
      else if el_width img = 0 \<or> el_height img = 0 \<or> \<not> pixels_readable env then
        Inr \<lparr> transparentImage = img,
              resultBounds = \<lparr> cb_x = 0, cb_y = 0,
                               cb_width = int (el_width img), cb_height = int (el_height img) \<rparr> \<rparr>
      else
        (let (data', cb) = mattePixels (el_width img) (el_height img) (el_pixels img) in
         if \<not> encoded_image_loads env then Inl EncodedImageError
         else Inr \<lparr> transparentImage = img \<lparr> el_pixels := data' \<rparr>, resultBounds = cb \<rparr>))"

text \<open>A browser in which every step of the pipeline succeeds.\<close>

definition okEnv :: canvas_env where
  "okEnv = \<lparr> image_loads = True, context_available = True,
             pixels_readable = True, encoded_image_loads = True \<rparr>"


section \<open>The sprite registry and its handlers (component App, src/App.tsx)\<close>

text \<open>
  JavaScript numbers that hold positions and sizes are modelled as \<open>real\<close>: the
  arithmetic of the handlers is the exact one, without the rounding of IEEE doubles. An
  optional field \<open>f?: T\<close> is a \<open>T option\<close>, with \<open>None\<close> for \<open>undefined\<close>.
  Timestamps are milliseconds, a \<open>File\<close> is known by its name.
\<close>

definition IMAGE_WIDTH :: real where
  "IMAGE_WIDTH = 375"

definition MOVE_AMOUNT :: real where
  "MOVE_AMOUNT = 25"



datatype js_file = File string

record model3D_info =
  meshUrl :: string
  glbUrl :: "string option"
  pbrUrl :: "string option"
  model3D_isGenerating :: bool
  model3D_error :: "string option"
  model3D_modelType :: "string option"

record video_info =
  videoUrl :: string
  video_isGenerating :: bool
  video_error :: "string option"
  video_prompt :: "string option"
  video_modelType :: "string option"

text \<open>The interface \<open>ProcessedImage\<close> (lines 133-177): one sprite of the registry.\<close>

record sprite =
  img_id :: nat
  sourceFile :: "js_file option"
  sourceText :: "string option"
  processedImage :: "html_image option"
  originalImageUrl :: "string option"
  showOriginal :: "bool option"
  img_x :: real
  img_y :: real
  img_width :: real
  img_height :: real
  isGenerating :: bool
  contentBounds :: "real bounds"
  sourcePreviewUrl :: "string option"
  flippedHorizontally :: "bool option"
  isVariation :: "bool option"
  remixSuggestions :: "string list option"
  generatingPrompt :: "string option"
  justGenerated :: "bool option"
  generatedAt :: "nat option"
  originalPrompt :: "string option"
  createdAt :: "nat option"
  completedAt :: "nat option"
  generationDuration :: "int option"
  img_scale :: "real option"
  model3D :: "model3D_info option"
  video :: "video_info option"

datatype GameMode = ModePixel | ModeBuilding | ModeAnime | ModeSticker | ModeComplete

text \<open>
  The part of the component state that the handlers below read and write. The caches of
  original and preview images, the completion badges and the timers are kept beside the
  registry and are left out, and so is the sound that some handlers play first.
\<close>

record app_state =
  images :: "sprite list"
  selectedImageId :: "nat option"
  nextId :: nat
  gameMode :: GameMode


subsection \<open>Truthiness of optional fields\<close>

text \<open>\<open>undefined\<close> is falsy, so is \<open>false\<close>.\<close>

fun truthy :: "bool option \<Rightarrow> bool" where
  "truthy None = False"
| "truthy (Some b) = b"

text \<open>\<open>img.scale || 1\<close>: an absent scale and the number 0 both give 1.\<close>

fun scaleOr1 :: "real option \<Rightarrow> real" where
  "scaleOr1 None = 1"
| "scaleOr1 (Some s) = (if s = 0 then 1 else s)"

text \<open>\<open>prompt || defaultPrompt\<close>: an absent prompt and the empty string give the default.\<close>

fun promptOr :: "string option \<Rightarrow> string \<Rightarrow> string" where
  "promptOr None d = d"
| "promptOr (Some p) d = (if p = [] then d else p)"

text \<open>\<open>Math.round\<close> rounds to the nearest integer, halves upwards.\<close>

definition js_round :: "real \<Rightarrow> real" where
  "js_round r = of_int \<lfloor>r + 1 / 2\<rfloor>"

subsection \<open>Prompt templates (lines 26-65)\<close>

definition PROMPT_PREFIX_IMAGE :: string where
  "PROMPT_PREFIX_IMAGE = ''Concisely identify and name the main subject in this image (e.g. person, character, object, building, vehicle, animal, landscape, nature scene, sky, ocean, mountain, forest, or any other element). ''"

definition PROMPT_POSTFIX :: string where
  "PROMPT_POSTFIX = ''in isometric perspective, 8-bit sprite on a white background. No drop shadow''"

definition PROMPT_MAIN :: "string \<Rightarrow> string" where
  "PROMPT_MAIN subject = ''Create 3d pixel art of '' @ subject @ '' ''"

definition IMAGE_PROMPT :: string where
  "IMAGE_PROMPT = PROMPT_PREFIX_IMAGE @ PROMPT_MAIN ''the isolated key entity'' @ PROMPT_POSTFIX"

definition TEXT_PROMPT_TEMPLATE :: "string \<Rightarrow> string" where
  "TEXT_PROMPT_TEMPLATE input = PROMPT_MAIN input @ PROMPT_POSTFIX"


definition BUILDING_PREFIX_IMAGE :: string where
  "BUILDING_PREFIX_IMAGE = ''Identify and convert this architectural element, building, structure, or construction (e.g. house, tower, bridge, monument, infrastructure, urban element) into an isometric 2D representation. ''"

definition BUILDING_POSTFIX :: string where
  "BUILDING_POSTFIX = ''in isometric perspective, architectural style, clean 2D building sprite on white background. No drop shadow, no people, no vehicles.''"

definition BUILDING_MAIN :: "string \<Rightarrow> string" where
  "BUILDING_MAIN subject = ''Create an isometric 2D building of '' @ subject @ '' ''"

definition BUILDING_IMAGE_PROMPT :: string where
  "BUILDING_IMAGE_PROMPT = BUILDING_PREFIX_IMAGE @ BUILDING_MAIN ''this building/structure'' @ BUILDING_POSTFIX"

definition BUILDING_TEXT_PROMPT_TEMPLATE :: "string \<Rightarrow> string" where
  "BUILDING_TEXT_PROMPT_TEMPLATE input = BUILDING_MAIN input @ BUILDING_POSTFIX"

definition ANIME_PREFIX_IMAGE :: string where
  "ANIME_PREFIX_IMAGE = ''Identify and convert this subject (character, person, creature, object, scene, landscape, or any element) into a high-definition anime-style isometric representation. ''"

definition ANIME_POSTFIX :: string where
  "ANIME_POSTFIX = ''in ultra-detailed anime isometric style, high resolution, vibrant colors, clean sprite on white background. No drop shadow, anime aesthetic with detailed shading, isometric perspective.''"

definition ANIME_MAIN :: "string \<Rightarrow> string" where
  "ANIME_MAIN subject = ''Create a high-definition anime isometric art of '' @ subject @ '' ''"

definition ANIME_IMAGE_PROMPT :: string where
  "ANIME_IMAGE_PROMPT = ANIME_PREFIX_IMAGE @ ANIME_MAIN ''this character/object'' @ ANIME_POSTFIX"

definition ANIME_TEXT_PROMPT_TEMPLATE :: "string \<Rightarrow> string" where
  "ANIME_TEXT_PROMPT_TEMPLATE input = ANIME_MAIN input @ ANIME_POSTFIX"

definition STICKER_PREFIX_IMAGE :: string where
  "STICKER_PREFIX_IMAGE = ''Convert this entire image into a high-quality 3D perspective sticker design. ''"

definition STICKER_POSTFIX :: string where
  "STICKER_POSTFIX = ''in 3D perspective style, vibrant colors, professional sticker design on transparent background. No drop shadow, clean edges, logo-ready quality, suitable for printing.''"

definition STICKER_MAIN :: "string \<Rightarrow> string" where
  "STICKER_MAIN subject = ''Create a 3D perspective sticker design of '' @ subject @ '' ''"

definition STICKER_IMAGE_PROMPT :: string where
  "STICKER_IMAGE_PROMPT = STICKER_PREFIX_IMAGE @ STICKER_MAIN ''the complete scene/image'' @ STICKER_POSTFIX"

definition STICKER_TEXT_PROMPT_TEMPLATE :: "string \<Rightarrow> string" where
  "STICKER_TEXT_PROMPT_TEMPLATE input = STICKER_MAIN input @ STICKER_POSTFIX"

definition COMPLETE_PREFIX_IMAGE :: string where
  "COMPLETE_PREFIX_IMAGE = ''Recreate this entire image as a complete isometric pixel art scene, including all elements, objects, characters, backgrounds, and details visible in the original image. ''"

definition COMPLETE_POSTFIX :: string where
  "COMPLETE_POSTFIX = ''in isometric perspective, 3D pixel art style, maintaining the complete composition and all visual elements on white background. No drop shadow, preserve all details and spatial relationships.''"

definition COMPLETE_MAIN :: "string \<Rightarrow> string" where
  "COMPLETE_MAIN subject = ''Create a complete isometric pixel art recreation of '' @ subject @ '' ''"

definition COMPLETE_IMAGE_PROMPT :: string where
  "COMPLETE_IMAGE_PROMPT = COMPLETE_PREFIX_IMAGE @ COMPLETE_MAIN ''the entire scene with all elements'' @ COMPLETE_POSTFIX"

definition COMPLETE_TEXT_PROMPT_TEMPLATE :: "string \<Rightarrow> string" where
  "COMPLETE_TEXT_PROMPT_TEMPLATE input = COMPLETE_MAIN input @ COMPLETE_POSTFIX"

text \<open>The mode-specific default of \<open>generateFromImage\<close> (lines 702-713).\<close>

fun defaultImagePrompt :: "GameMode \<Rightarrow> string" where
  "defaultImagePrompt ModeBuilding = BUILDING_IMAGE_PROMPT"
| "defaultImagePrompt ModeAnime = ANIME_IMAGE_PROMPT"
| "defaultImagePrompt ModeSticker = STICKER_IMAGE_PROMPT"
| "defaultImagePrompt ModeComplete = COMPLETE_IMAGE_PROMPT"
| "defaultImagePrompt ModePixel = IMAGE_PROMPT"

text \<open>The mode-specific prompt of \<open>generateFromText\<close> (lines 785-796).\<close>

fun fullTextPrompt :: "GameMode \<Rightarrow> string \<Rightarrow> string" where
  "fullTextPrompt ModeBuilding userInput = BUILDING_TEXT_PROMPT_TEMPLATE userInput"
| "fullTextPrompt ModeAnime userInput = ANIME_TEXT_PROMPT_TEMPLATE userInput"
| "fullTextPrompt ModeSticker userInput = STICKER_TEXT_PROMPT_TEMPLATE userInput"
| "fullTextPrompt ModeComplete userInput = COMPLETE_TEXT_PROMPT_TEMPLATE userInput"
| "fullTextPrompt ModePixel userInput = TEXT_PROMPT_TEMPLATE userInput"


subsection \<open>The generation orchestrator (lines 289-305, 700-859)\<close>

datatype gen_error =
  GenerationError
  | NoImageReturned
  | MattingRejected matte_error
  | ConversionError string
  | SuggestionError

text \<open>What the browser gives \<open>imageElementToFile\<close>: a 2d context, and a blob from \<open>toBlob\<close>.\<close>

record blob_env =
  context2d :: bool
  blob_created :: bool

definition imageElementToFile :: "blob_env \<Rightarrow> html_image \<Rightarrow> string \<Rightarrow> gen_error + js_file" where
  "imageElementToFile env imageElement fileName =
     (if \<not> context2d env then Inl (ConversionError ''Could not get 2d context for image conversion'')
      else if blob_created env then Inr (File fileName)
      else Inl (ConversionError ''Canvas to Blob conversion failed''))"

text \<open>
  Modelled from the spec: the functions \<open>generateImageWithPrompt\<close>,
  \<open>generateImageFromText\<close> and \<open>getRemixSuggestions\<close> are imported from
  \<open>./services/geminiService\<close>, which is not among the sources. By the external
  interface of the spec each of them resolves with its artifact or fails
  (\<open>GenerationError\<close>, \<open>SuggestionError\<close>). What each \<open>await\<close> of a generation
  yields is a field of this record: the image call, the browser that decodes and mattes
  the returned image, the browser that converts the matted image to a file, and the
  suggestion call.
\<close>

record awaited =
  imageCall :: "gen_error + string"
  canvas :: canvas_env
  decoded :: html_image
  blobs :: blob_env
  suggestionCall :: "gen_error + string list"

text \<open>
  Lines 727-734 (and 808-815): the image call, \<open>if (!imageUrl) throw\<close>, then matting.
  A rejection anywhere leaves the \<open>try\<close> block.
\<close>

definition awaitImage :: "awaited \<Rightarrow> gen_error + string \<times> processing_result" where
  "awaitImage aw =
     (case imageCall aw of
        Inl e \<Rightarrow> Inl e
      | Inr imageUrl \<Rightarrow>
          if imageUrl = [] then Inl NoImageReturned
          else (case processImageForTransparency (canvas aw) (decoded aw) of
                  Inl e \<Rightarrow> Inl (MattingRejected e)
                | Inr res \<Rightarrow> Inr (imageUrl, res)))"

text \<open>Lines 737-738 (and 818-819): the file for the suggestions, then the suggestion call.\<close>

definition awaitSuggestions :: "awaited \<Rightarrow> html_image \<Rightarrow> gen_error + string list" where
  "awaitSuggestions aw transparent =
     (case imageElementToFile (blobs aw) transparent ''suggestion-source.png'' of
        Inl e \<Rightarrow> Inl e
      | Inr imageFileForSuggestions \<Rightarrow> suggestionCall aw)"

definition boundsToReal :: "int bounds \<Rightarrow> real bounds" where
  "boundsToReal cb =
     \<lparr> cb_x = of_int (cb_x cb), cb_y = of_int (cb_y cb),
       cb_width = of_int (cb_width cb), cb_height = of_int (cb_height cb) \<rparr>"

text \<open>
  The first \<open>setImages\<close> of each generation (lines 718-724, 799-805), run before the
  first \<open>await\<close>.
\<close>

definition setOriginalPrompt :: "nat \<Rightarrow> string \<Rightarrow> nat \<Rightarrow> sprite list \<Rightarrow> sprite list" where
  "setOriginalPrompt ident prompt startTime prev =
     map (\<lambda>img. if img_id img = ident
                 then img \<lparr> originalPrompt := Some prompt, createdAt := Some startTime \<rparr>
                 else img) prev"

definition generateFromImage_start ::
    "GameMode \<Rightarrow> nat \<Rightarrow> string option \<Rightarrow> nat \<Rightarrow> sprite list \<Rightarrow> sprite list" where
  "generateFromImage_start mode ident prompt startTime prev =
     setOriginalPrompt ident (promptOr prompt (defaultImagePrompt mode)) startTime prev"

definition generateFromText_start ::
    "GameMode \<Rightarrow> string \<Rightarrow> nat \<Rightarrow> nat \<Rightarrow> sprite list \<Rightarrow> sprite list" where
  "generateFromText_start mode userInput ident startTime prev =
     setOriginalPrompt ident (fullTextPrompt mode userInput) startTime prev"

text \<open>
  The patch of the success path of \<open>generateFromImage\<close> (lines 746-769) for the sprite
  whose id matches. The division is the exact one; it agrees with JavaScript for an image
  of positive width and height.
\<close>

definition completedFromImage ::
    "string \<Rightarrow> processing_result \<Rightarrow> string list \<Rightarrow> nat \<Rightarrow> nat \<Rightarrow> sprite \<Rightarrow> sprite" where
  "completedFromImage imageUrl res suggestions startTime endTime img =
     (let aspectRatio = real (el_width (transparentImage res)) / real (el_height (transparentImage res));
          duration = int endTime - int startTime;
          newWidth = IMAGE_WIDTH;
          newHeight = IMAGE_WIDTH / aspectRatio;
          currentCenterX = img_x img + img_width img / 2;
          currentCenterY = img_y img + img_height img / 2
      in img \<lparr> processedImage := Some (transparentImage res),
               originalImageUrl := Some imageUrl,
               showOriginal := Some False,
               contentBounds := boundsToReal (resultBounds res),
               img_width := newWidth,
               img_height := newHeight,
               img_x := currentCenterX - newWidth / 2,
               img_y := currentCenterY - newHeight / 2,
               isGenerating := False,
               sourcePreviewUrl := None,
               remixSuggestions := Some suggestions,
               generatingPrompt := None,
               completedAt := Some endTime,
               generationDuration := Some duration,
               img_scale := Some 1 \<rparr>)"

text \<open>The patch of the success path of \<open>generateFromText\<close> (lines 827-847).\<close>

definition completedFromText ::
    "string \<Rightarrow> processing_result \<Rightarrow> string list \<Rightarrow> nat \<Rightarrow> nat \<Rightarrow> sprite \<Rightarrow> sprite" where
  "completedFromText imageUrl res suggestions startTime endTime img =
     (let aspectRatio = real (el_width (transparentImage res)) / real (el_height (transparentImage res));
          duration = int endTime - int startTime;
          newWidth = IMAGE_WIDTH;
          newHeight = IMAGE_WIDTH / aspectRatio;
          currentCenterX = img_x img + img_width img / 2;
          currentCenterY = img_y img + img_height img / 2
      in img \<lparr> processedImage := Some (transparentImage res),
               originalImageUrl := Some imageUrl,
               showOriginal := Some False,
               contentBounds := boundsToReal (resultBounds res),
               img_width := newWidth,
               img_height := newHeight,
               img_x := currentCenterX - newWidth / 2,
               img_y := currentCenterY - newHeight / 2,
               isGenerating := False,
               remixSuggestions := Some suggestions,
               completedAt := Some endTime,
               generationDuration := Some duration,
               img_scale := Some 1 \<rparr>)"

text \<open>
  What a generation does to the registry once its awaits are over: the \<open>setImages\<close> of
  the success path (a map that patches the sprite with the id), or the \<open>setImages\<close>
  of the \<open>catch\<close> block (a filter that drops it). \<open>prev\<close> is the registry at that
  moment.
\<close>

definition generateFromImage_complete ::
    "nat \<Rightarrow> awaited \<Rightarrow> nat \<Rightarrow> nat \<Rightarrow> sprite list \<Rightarrow> sprite list" where
  "generateFromImage_complete ident aw startTime endTime prev =
     (case awaitImage aw of
        Inl e \<Rightarrow> filter (\<lambda>img. img_id img \<noteq> ident) prev
      | Inr (imageUrl, res) \<Rightarrow>
          (case awaitSuggestions aw (transparentImage res) of
             Inl e \<Rightarrow> filter (\<lambda>img. img_id img \<noteq> ident) prev
           | Inr suggestions \<Rightarrow>
               map (\<lambda>img. if img_id img \<noteq> ident then img
                           else completedFromImage imageUrl res suggestions startTime endTime img)
                   prev))"

definition generateFromText_complete ::
    "nat \<Rightarrow> awaited \<Rightarrow> nat \<Rightarrow> nat \<Rightarrow> sprite list \<Rightarrow> sprite list" where
  "generateFromText_complete ident aw startTime endTime prev =
     (case awaitImage aw of
        Inl e \<Rightarrow> filter (\<lambda>img. img_id img \<noteq> ident) prev
      | Inr (imageUrl, res) \<Rightarrow>
          (case awaitSuggestions aw (transparentImage res) of
             Inl e \<Rightarrow> filter (\<lambda>img. img_id img \<noteq> ident) prev
           | Inr suggestions \<Rightarrow>
               map (\<lambda>img. if img_id img \<noteq> ident then img
                           else completedFromText imageUrl res suggestions startTime endTime img)
                   prev))"


text \<open>Template literals print a number in decimal.\<close>

fun decimal :: "nat \<Rightarrow> string" where
  "decimal n = (if n < 10 then [char_of (48 + n)]
                else decimal (n div 10) @ [char_of (48 + n mod 10)])"

text \<open>
  The combined generation of several images (lines 910-985). Its prompt depends on the
  mode and on the number of files; the suggestion call takes the first file as it is, so
  no file conversion stands between matting and the suggestions; the patch leaves
  \<open>scale\<close> alone and sets \<open>justGenerated\<close> and \<open>generatedAt\<close> (the clock is read
  once here, for \<open>endTime\<close> and for \<open>generatedAt\<close>).
\<close>

fun multiplePrompt :: "GameMode \<Rightarrow> nat \<Rightarrow> string" where
  "multiplePrompt ModeBuilding n = ''Analyze these '' @ decimal n @ '' building/structure images and create a single isometric 2D architectural representation combining their key features. '' @ BUILDING_POSTFIX"
| "multiplePrompt ModeAnime n = ''Analyze these '' @ decimal n @ '' images and create a single ultra-detailed anime isometric character combining their key elements. '' @ ANIME_POSTFIX"
| "multiplePrompt ModeSticker n = ''Analyze these '' @ decimal n @ '' images and create a single 3D perspective sticker design combining all visual elements. '' @ STICKER_POSTFIX"
| "multiplePrompt ModeComplete n = ''Analyze these '' @ decimal n @ '' images and create a complete isometric pixel art scene combining all elements, objects, and details from each image. '' @ COMPLETE_POSTFIX"
| "multiplePrompt ModePixel n = ''Analyze these '' @ decimal n @ '' images and create a single 3D pixel art sprite combining their key elements. '' @ PROMPT_POSTFIX"

definition completedFromMultiple ::
    "string \<Rightarrow> processing_result \<Rightarrow> string list \<Rightarrow> nat \<Rightarrow> nat \<Rightarrow> sprite \<Rightarrow> sprite" where
  "completedFromMultiple imageUrl res suggestions startTime endTime img =
     (let duration = int endTime - int startTime;
          aspectRatio = real (el_width (transparentImage res)) / real (el_height (transparentImage res));
          newWidth = IMAGE_WIDTH;
          newHeight = IMAGE_WIDTH / aspectRatio;
          currentCenterX = img_x img + img_width img / 2;
          currentCenterY = img_y img + img_height img / 2
      in img \<lparr> processedImage := Some (transparentImage res),
               originalImageUrl := Some imageUrl,
               showOriginal := Some False,
               contentBounds := boundsToReal (resultBounds res),
               img_width := newWidth,
               img_height := newHeight,
               img_x := currentCenterX - newWidth / 2,
               img_y := currentCenterY - newHeight / 2,
               isGenerating := False,
               sourcePreviewUrl := None,
               remixSuggestions := Some suggestions,
               generatingPrompt := None,
               completedAt := Some endTime,
               generationDuration := Some duration,
               justGenerated := Some True,
               generatedAt := Some endTime \<rparr>)"

definition generateFromMultipleImages_complete ::
    "nat \<Rightarrow> awaited \<Rightarrow> nat \<Rightarrow> nat \<Rightarrow> sprite list \<Rightarrow> sprite list" where
  "generateFromMultipleImages_complete ident aw startTime endTime prev =
     (case awaitImage aw of
        Inl e \<Rightarrow> filter (\<lambda>img. img_id img \<noteq> ident) prev
      | Inr (imageUrl, res) \<Rightarrow>
          (case suggestionCall aw of
             Inl e \<Rightarrow> filter (\<lambda>img. img_id img \<noteq> ident) prev
           | Inr suggestions \<Rightarrow>
               map (\<lambda>img. if img_id img \<noteq> ident then img
                           else completedFromMultiple imageUrl res suggestions startTime endTime img)
                   prev))"

subsection \<open>Creating sprites (lines 861-893, 987-1030, 1199-1230)\<close>

text \<open>
  A sprite literal of the source names some fields and leaves the others \<open>undefined\<close>;
  this is the sprite with only the required fields, the optional ones all absent.
\<close>

definition blankSprite :: "nat \<Rightarrow> real \<Rightarrow> real \<Rightarrow> real \<Rightarrow> real \<Rightarrow> sprite" where
  "blankSprite ident px py w h =
     \<lparr> img_id = ident, sourceFile = None, sourceText = None, processedImage = None,
       originalImageUrl = None, showOriginal = None,
       img_x = px, img_y = py, img_width = w, img_height = h,
       isGenerating = True,
       contentBounds = \<lparr> cb_x = 0, cb_y = 0, cb_width = w, cb_height = h \<rparr>,
       sourcePreviewUrl = None, flippedHorizontally = None, isVariation = None,
       remixSuggestions = None, generatingPrompt = None, justGenerated = None,
       generatedAt = None, originalPrompt = None, createdAt = None, completedAt = None,
       generationDuration = None, img_scale = None, model3D = None, video = None \<rparr>"

text \<open>\<open>String.prototype.trim\<close>, on the ASCII white space and line ends.\<close>

definition isWhiteSpace :: "char \<Rightarrow> bool" where
  "isWhiteSpace c = (c \<in> set [CHR 0x09, CHR 0x0A, CHR 0x0B, CHR 0x0C, CHR 0x0D, CHR 0x20])"

definition trim :: "string \<Rightarrow> string" where
  "trim s = rev (dropWhile isWhiteSpace (rev (dropWhile isWhiteSpace s)))"

text \<open>
  \<open>handleTextSubmit\<close>: the placeholder is centred on the canvas, whose size is
  \<open>canvasWidth\<close> by \<open>canvasHeight\<close>; \<open>generateFromText\<close> then runs up to its first
  \<open>await\<close>.
\<close>

definition handleTextSubmit :: "string \<Rightarrow> real \<Rightarrow> real \<Rightarrow> nat \<Rightarrow> app_state \<Rightarrow> app_state" where
  "handleTextSubmit textInput canvasWidth canvasHeight startTime st =
     (let trimmedInput = trim textInput in
      if trimmedInput = [] then st
      else
        (let ident = nextId st;
             dropX = canvasWidth / 2;
             dropY = canvasHeight / 2;
             PLACEHOLDER_WIDTH = 250;
             newImage = (blankSprite ident (dropX - PLACEHOLDER_WIDTH / 2) (dropY - PLACEHOLDER_WIDTH / 2)
                           PLACEHOLDER_WIDTH PLACEHOLDER_WIDTH)
                        \<lparr> sourceText := Some trimmedInput,
                          flippedHorizontally := Some False,
                          isVariation := Some False \<rparr>
         in st \<lparr> images := generateFromText_start (gameMode st) trimmedInput ident startTime
                              (images st @ [newImage]),
                 nextId := Suc ident \<rparr>))"

text \<open>\<open>addImageToCanvas\<close> without a custom position.\<close>

definition addImageToCanvas ::
    "js_file \<Rightarrow> string \<Rightarrow> real \<Rightarrow> real \<Rightarrow> nat \<Rightarrow> app_state \<Rightarrow> app_state" where
  "addImageToCanvas file previewUrl canvasWidth canvasHeight startTime st =
     (let ident = nextId st;
          dropX = canvasWidth / 2;
          dropY = canvasHeight / 2;
          PLACEHOLDER_WIDTH = 250;
          newImage = (blankSprite ident (dropX - PLACEHOLDER_WIDTH / 2) (dropY - 100)
                        PLACEHOLDER_WIDTH 200)
                     \<lparr> sourceFile := Some file,
                       sourcePreviewUrl := Some previewUrl,
                       flippedHorizontally := Some False,
                       isVariation := Some False \<rparr>
      in st \<lparr> images := generateFromImage_start (gameMode st) ident (Some IMAGE_PROMPT) startTime
                           (images st @ [newImage]),
              nextId := Suc ident \<rparr>)"

text \<open>
  \<open>handleMultipleImageUpload\<close>, called with two files or more. Its sprite literal names
  neither \<open>flippedHorizontally\<close> nor \<open>isVariation\<close>.
\<close>

definition handleMultipleImageUpload ::
    "js_file list \<Rightarrow> string list \<Rightarrow> real \<Rightarrow> real \<Rightarrow> nat \<Rightarrow> app_state \<Rightarrow> app_state" where
  "handleMultipleImageUpload files previewUrls canvasWidth canvasHeight startTime st =
     (let ident = nextId st;
          dropX = canvasWidth / 2;
          dropY = canvasHeight / 2;
          newImage = (blankSprite ident (dropX - IMAGE_WIDTH / 2) (dropY - IMAGE_WIDTH / 2)
                        IMAGE_WIDTH IMAGE_WIDTH)
                     \<lparr> sourceFile := (case files of [] \<Rightarrow> None | f # fs \<Rightarrow> Some f),
                       sourcePreviewUrl := (case previewUrls of [] \<Rightarrow> None | u # us \<Rightarrow> Some u),
                       generatingPrompt := Some (''Combining '' @ decimal (length files) @ '' images...''),
                       img_scale := Some 1 \<rparr>
      in st \<lparr> images := setOriginalPrompt ident (multiplePrompt (gameMode st) (length files)) startTime
                           (images st @ [newImage]),
              nextId := Suc ident \<rparr>)"


subsection \<open>Actions on the selected sprite (lines 347-352, 1232-1326, 1642-1645, 1782-1786)\<close>

definition selectedImage :: "app_state \<Rightarrow> sprite option" where
  "selectedImage st =
     (case selectedImageId st of
        None \<Rightarrow> None
      | Some sel \<Rightarrow> find (\<lambda>img. img_id img = sel) (images st))"

text \<open>\<open>isActionDisabled = !selectedImage || selectedImage.isGenerating\<close>\<close>

definition isActionDisabled :: "app_state \<Rightarrow> bool" where
  "isActionDisabled st =
     (case selectedImage st of None \<Rightarrow> True | Some img \<Rightarrow> isGenerating img)"

definition handleDeleteSelected :: "app_state \<Rightarrow> app_state" where
  "handleDeleteSelected st =
     (if isActionDisabled st then st
      else st \<lparr> images := filter (\<lambda>img. Some (img_id img) \<noteq> selectedImageId st) (images st),
                selectedImageId := None \<rparr>)"


definition handleFlipSelected :: "app_state \<Rightarrow> app_state" where
  "handleFlipSelected st =
     (if isActionDisabled st then st
      else
        (case find (\<lambda>img. Some (img_id img) = selectedImageId st) (images st) of
           None \<Rightarrow> st
         | Some imageToFlip \<Rightarrow>
             st \<lparr> images :=
                    map (\<lambda>img. if Some (img_id img) = selectedImageId st
                                then img \<lparr> flippedHorizontally :=
                                             Some (\<not> truthy (flippedHorizontally img)) \<rparr>
                                else img) (images st) \<rparr>))"




definition handleResetCanvas :: "app_state \<Rightarrow> app_state" where
  "handleResetCanvas st = st \<lparr> images := [] \<rparr>"

subsection \<open>Hit testing: getImageAtPosition (lines 1101-1137)\<close>

text \<open>The test of line 1108: the pointer lies in the scaled rectangle of the sprite.\<close>

definition inScaledRect :: "real \<Rightarrow> real \<Rightarrow> sprite \<Rightarrow> bool" where
  "inScaledRect x y img =
     (let scale = scaleOr1 (img_scale img);
          scaledWidth = img_width img * scale;
          scaledHeight = img_height img * scale
      in x \<ge> img_x img \<and> x \<le> img_x img + scaledWidth \<and>
         y \<ge> img_y img \<and> y \<le> img_y img + scaledHeight)"

text \<open>
  The body of the loop for one sprite: whether the loop returns it. The division by the
  pixel size of the image is the exact one (an image has a positive size).
\<close>

definition hitsSprite :: "real \<Rightarrow> real \<Rightarrow> sprite \<Rightarrow> bool" where
  "hitsSprite x y img =
     (if inScaledRect x y img then
        (if isGenerating img then True
         else
           (case processedImage img of
              None \<Rightarrow> False
            | Some pim \<Rightarrow>
                (let scale = scaleOr1 (img_scale img);
                     scaledWidth = img_width img * scale;
                     scaledHeight = img_height img * scale;
                     localX = x - img_x img;
                     localY = y - img_y img;
                     scaleX = scaledWidth / real (el_width pim);
                     scaleY = scaledHeight / real (el_height pim);
                     scaledBounds =
                       \<lparr> cb_x = cb_x (contentBounds img) * scaleX,
                         cb_y = cb_y (contentBounds img) * scaleY,
                         cb_width = cb_width (contentBounds img) * scaleX,
                         cb_height = cb_height (contentBounds img) * scaleY \<rparr>
                 in localX \<ge> cb_x scaledBounds \<and>
                    localX \<le> cb_x scaledBounds + cb_width scaledBounds \<and>
                    localY \<ge> cb_y scaledBounds \<and>
                    localY \<le> cb_y scaledBounds + cb_height scaledBounds)))
      else False)"

text \<open>The loop runs from the last sprite of the registry to the first.\<close>

fun firstHit :: "real \<Rightarrow> real \<Rightarrow> sprite list \<Rightarrow> sprite option" where
  "firstHit x y [] = None"
| "firstHit x y (img # rest) = (if hitsSprite x y img then Some img else firstHit x y rest)"

definition getImageAtPosition :: "real \<Rightarrow> real \<Rightarrow> sprite list \<Rightarrow> sprite option" where
  "getImageAtPosition x y imgs = firstHit x y (rev imgs)"

subsection \<open>Drawing a finished sprite: drawCanvas (lines 499-518)\<close>

text \<open>
  The call \<open>ctx.drawImage(imageToDraw, dx, dy, dWidth, dHeight)\<close> for a sprite that has
  an image and is not generating, and whether \<open>ctx.scale(-1, 1)\<close> is in force.
\<close>

record draw_call =
  mirrored :: bool
  dest_x :: real
  dest_y :: real
  dest_width :: real
  dest_height :: real

definition drawFinished :: "sprite \<Rightarrow> draw_call" where
  "drawFinished img =
     (let drawX = js_round (img_x img);
          drawY = js_round (img_y img);
          scale = scaleOr1 (img_scale img);
          scaledWidth = img_width img * scale;
          scaledHeight = img_height img * scale
      in if truthy (flippedHorizontally img)
         then \<lparr> mirrored = True, dest_x = - drawX - scaledWidth, dest_y = drawY,
                dest_width = scaledWidth, dest_height = scaledHeight \<rparr>
         else \<lparr> mirrored = False, dest_x = drawX, dest_y = drawY,
                dest_width = scaledWidth, dest_height = scaledHeight \<rparr>)"

text \<open>
  Under \<open>ctx.scale(-1, 1)\<close> the point \<open>(px, py)\<close> of a drawing command lands on the
  canvas pixel \<open>(- px, py)\<close>. A point at the horizontal offset \<open>u\<close> in the destination
  rectangle of the call therefore lands at this abscissa.
\<close>

definition paintedX :: "draw_call \<Rightarrow> real \<Rightarrow> real" where
  "paintedX c u = (if mirrored c then - (dest_x c + u) else dest_x c + u)"


section \<open>Vocabulary of the properties\<close>

subsection \<open>Pixels of a buffer\<close>

text \<open>The four channels, the colour and the alpha of the pixel at column \<open>x\<close> of row \<open>y\<close>.\<close>

definition rgbaAt :: "byte list \<Rightarrow> nat \<Rightarrow> nat \<Rightarrow> nat \<Rightarrow> byte \<times> byte \<times> byte \<times> byte" where
  "rgbaAt data w x y =
     (let k = (y * w + x) * 4 in (data ! k, data ! (k + 1), data ! (k + 2), data ! (k + 3)))"

definition rgbAt :: "byte list \<Rightarrow> nat \<Rightarrow> nat \<Rightarrow> nat \<Rightarrow> byte \<times> byte \<times> byte" where
  "rgbAt data w x y = (let k = (y * w + x) * 4 in (data ! k, data ! (k + 1), data ! (k + 2)))"

definition alphaAt :: "byte list \<Rightarrow> nat \<Rightarrow> nat \<Rightarrow> nat \<Rightarrow> byte" where
  "alphaAt data w x y = data ! ((y * w + x) * 4 + 3)"

text \<open>
  The pixel at \<open>(x, y)\<close> is within the colour-distance threshold of the top-left pixel.
\<close>

definition withinThreshold :: "byte list \<Rightarrow> nat \<Rightarrow> nat \<Rightarrow> nat \<Rightarrow> bool" where
  "withinThreshold data w x y =
     (case (rgbAt data w x y, rgbAt data w 0 0) of
        ((r, g, b), (bgR, bgG, bgB)) \<Rightarrow>
          (uint r - uint bgR)\<^sup>2 + (uint g - uint bgG)\<^sup>2 + (uint b - uint bgB)\<^sup>2
            < COLOR_DISTANCE_THRESHOLD * COLOR_DISTANCE_THRESHOLD)"

text \<open>The same test on the pixel number \<open>p\<close>, against a given background colour.\<close>

definition closeToBg :: "int \<Rightarrow> int \<Rightarrow> int \<Rightarrow> byte list \<Rightarrow> nat \<Rightarrow> bool" where
  "closeToBg bgR bgG bgB data p =
     ((uint (data ! (4 * p)) - bgR)\<^sup>2 + (uint (data ! (4 * p + 1)) - bgG)\<^sup>2
        + (uint (data ! (4 * p + 2)) - bgB)\<^sup>2
      < COLOR_DISTANCE_THRESHOLD * COLOR_DISTANCE_THRESHOLD)"

text \<open>The pixel counts for the bounding box: the test of \<open>scanPixel\<close>.\<close>

definition opaqueAt :: "byte list \<Rightarrow> nat \<Rightarrow> nat \<Rightarrow> nat \<Rightarrow> bool" where
  "opaqueAt data w x y =
     ((y * w + x) * 4 + 3 < length data \<and> 0 < uint (data ! ((y * w + x) * 4 + 3)))"

definition initBox :: "nat \<Rightarrow> nat \<Rightarrow> bbox" where
  "initBox w h = \<lparr> minX = int w, minY = int h, maxX = - 1, maxY = - 1 \<rparr>"

text \<open>The running box is untouched, or it lies inside the image.\<close>

definition boxInside :: "nat \<Rightarrow> nat \<Rightarrow> bbox \<Rightarrow> bool" where
  "boxInside w h b =
     (b = initBox w h \<or>
      (0 \<le> minX b \<and> minX b \<le> maxX b \<and> maxX b < int w \<and>
       0 \<le> minY b \<and> minY b \<le> maxY b \<and> maxY b < int h))"

text \<open>The running box holds the pixel \<open>(x, y)\<close>.\<close>

definition covers :: "bbox \<Rightarrow> nat \<Rightarrow> nat \<Rightarrow> bool" where
  "covers b x y = (minX b \<le> int x \<and> int x \<le> maxX b \<and> minY b \<le> int y \<and> int y \<le> maxY b)"

text \<open>What matting returns, when it returns: the bounds, and the pixels of the image.\<close>

definition matteBounds :: "canvas_env \<Rightarrow> html_image \<Rightarrow> int bounds option" where
  "matteBounds env img =
     (case processImageForTransparency env img of
        Inl e \<Rightarrow> None | Inr res \<Rightarrow> Some (resultBounds res))"

definition mattedPixels :: "canvas_env \<Rightarrow> html_image \<Rightarrow> byte list option" where
  "mattedPixels env img =
     (case processImageForTransparency env img of
        Inl e \<Rightarrow> None | Inr res \<Rightarrow> Some (el_pixels (transparentImage res)))"

text \<open>The square of pixels \<open>(20,20)\<close> to \<open>(60,60)\<close>, both included.\<close>

definition inSquare :: "nat \<Rightarrow> nat \<Rightarrow> bool" where
  "inSquare x y = (20 \<le> x \<and> x \<le> 60 \<and> 20 \<le> y \<and> y \<le> 60)"

subsection \<open>Example images\<close>

text \<open>The buffer of a \<open>w\<close> by \<open>h\<close> image whose pixel at \<open>(x, y)\<close> is \<open>pix x y\<close>.\<close>

definition rasterOf :: "nat \<Rightarrow> nat \<Rightarrow> (nat \<Rightarrow> nat \<Rightarrow> byte list) \<Rightarrow> byte list" where
  "rasterOf w h pix = concat (map (\<lambda>p. pix (p mod w) (p div w)) [0..<w * h])"

definition whiteImage :: html_image where
  "whiteImage = \<lparr> el_width = 100, el_height = 100,
                  el_pixels = rasterOf 100 100 (\<lambda>x y. [255, 255, 255, 255]) \<rparr>"

definition redSquareImage :: html_image where
  "redSquareImage = \<lparr> el_width = 100, el_height = 100,
                      el_pixels = rasterOf 100 100
                        (\<lambda>x y. if inSquare x y then [255, 0, 0, 255] else [255, 255, 255, 255]) \<rparr>"

text \<open>
  Two by two: white, an opaque dark pixel, a near-white pixel, and a white pixel that is
  transparent already.
\<close>

definition tinyImage :: html_image where
  "tinyImage = \<lparr> el_width = 2, el_height = 2,
                 el_pixels = [255, 255, 255, 255,   10, 20, 30, 255,
                              250, 250, 250, 255,   255, 255, 255, 0] \<rparr>"

text \<open>A finished image whose content fills its left fifth.\<close>

definition leftContentImage :: html_image where
  "leftContentImage = \<lparr> el_width = 375, el_height = 375,
       el_pixels = rasterOf 375 375 (\<lambda>x y. if x < 75 then [0, 0, 0, 255] else [255, 255, 255, 0]) \<rparr>"

subsection \<open>Example sessions\<close>

definition initialState :: app_state where
  "initialState = \<lparr> images = [], selectedImageId = None, nextId = 0, gameMode = ModePixel \<rparr>"

text \<open>The image service returns a 400 by 300 image; every later step succeeds.\<close>

definition returnedImage :: html_image where
  "returnedImage = \<lparr> el_width = 400, el_height = 300,
                     el_pixels = rasterOf 400 300 (\<lambda>x y. [255, 255, 255, 255]) \<rparr>"

definition okBlobs :: blob_env where
  "okBlobs = \<lparr> context2d = True, blob_created = True \<rparr>"

definition castleAwaited :: awaited where
  "castleAwaited = \<lparr> imageCall = Inr ''data:image/png;base64,castle'', canvas = okEnv,
                     decoded = returnedImage, blobs = okBlobs,
                     suggestionCall = Inr [''Make it taller''] \<rparr>"

definition returnedResult :: processing_result where
  "returnedResult =
     \<lparr> transparentImage =
         returnedImage \<lparr> el_pixels := fst (mattePixels 400 300 (el_pixels returnedImage)) \<rparr>,
       resultBounds = snd (mattePixels 400 300 (el_pixels returnedImage)) \<rparr>"

text \<open>The same generation with a suggestion call that fails, or a blob that is not made.\<close>

definition suggestionFails :: awaited where
  "suggestionFails = castleAwaited \<lparr> suggestionCall := Inl SuggestionError \<rparr>"

definition conversionFails :: awaited where
  "conversionFails = castleAwaited \<lparr> blobs := \<lparr> context2d = True, blob_created = False \<rparr> \<rparr>"

text \<open>
  The prompt "castle" is submitted on a canvas of 1000 by 800 at time 0; the generation
  completes at time 5000 and the sprite is then selected.
\<close>

definition castleSubmitted :: app_state where
  "castleSubmitted = handleTextSubmit ''castle'' 1000 800 0 initialState"

definition castleReady :: app_state where
  "castleReady = castleSubmitted
     \<lparr> images := generateFromText_complete 0 castleAwaited 0 5000 (images castleSubmitted),
       selectedImageId := Some 0 \<rparr>"


text \<open>One image is added to the canvas.\<close>

definition photoSubmitted :: app_state where
  "photoSubmitted = addImageToCanvas (File ''photo.png'') ''blob:photo'' 1000 800 0 initialState"

text \<open>Two images are combined; the generation completes and the sprite is selected.\<close>

definition multiSubmitted :: app_state where
  "multiSubmitted = handleMultipleImageUpload [File ''a.png'', File ''b.png''] [''blob:a'', ''blob:b'']
                      1000 800 0 initialState"

definition multiReady :: app_state where
  "multiReady = multiSubmitted
     \<lparr> images := generateFromMultipleImages_complete 0 castleAwaited 0 5000 (images multiSubmitted),
       selectedImageId := Some 0 \<rparr>"

text \<open>A finished sprite at the origin, drawn at its natural size, flipped or not.\<close>

definition leftContentSprite :: "bool \<Rightarrow> sprite" where
  "leftContentSprite flipped =
     (blankSprite 0 0 0 375 375)
       \<lparr> sourceText := Some ''flag'',
         processedImage := Some leftContentImage,
         isGenerating := False,
         contentBounds := \<lparr> cb_x = 0, cb_y = 0, cb_width = 75, cb_height = 375 \<rparr>,
         flippedHorizontally := Some flipped,
         img_scale := Some 1 \<rparr>"

text \<open>The registry after the \<open>setImages\<close> of \<open>handleFlipSelected\<close>.\<close>

definition flipImages :: "app_state \<Rightarrow> sprite list" where
  "flipImages st =
     map (\<lambda>img. if Some (img_id img) = selectedImageId st
                 then img \<lparr> flippedHorizontally := Some (\<not> truthy (flippedHorizontally img)) \<rparr>
                 else img) (images st)"

section \<open>Properties of the matting engine\<close>

declare matteLoop.simps [simp del]

subsection \<open>The alpha loop\<close>

lemma matteLoop_length [simp]: "length (matteLoop bgR bgG bgB i data) = length data"
  by (induction bgR bgG bgB i data rule: matteLoop.induct)
     (subst matteLoop.simps, simp add: Let_def)

lemma closeToBg_alpha_update [simp]:
  "closeToBg bgR bgG bgB (data[4 * j + 3 := v]) p = closeToBg bgR bgG bgB data p"
proof -
  have "4 * j + 3 \<noteq> 4 * p" "4 * j + 3 \<noteq> 4 * p + 1" "4 * j + 3 \<noteq> 4 * p + 2" by presburger+
  then show ?thesis by (simp add: closeToBg_def)
qed

text \<open>
  On a buffer of \<open>n\<close> pixels, the loop started at pixel \<open>j\<close> clears the alpha of the
  pixels from \<open>j\<close> on that are close to the background, and changes nothing else.
\<close>

lemma matteLoop_nth:
  assumes "length data = 4 * n" "k < 4 * n"
  shows "matteLoop bgR bgG bgB (4 * j) data ! k =
           (if k mod 4 = 3 \<and> j \<le> k div 4 \<and> closeToBg bgR bgG bgB data (k div 4)
            then 0 else data ! k)"
  using assms
proof (induction "n - j" arbitrary: j data)
  case 0
  then have "\<not> 4 * j < length data" by simp
  moreover have "\<not> j \<le> k div 4" using 0 by simp
  ultimately show ?case by (subst matteLoop.simps) simp
next
  case (Suc m)
  then have lt: "4 * j < length data" "4 * j + 2 < length data" by simp_all
  let ?c = "closeToBg bgR bgG bgB data j"
  let ?d = "if ?c then data[4 * j + 3 := 0] else data"
  have step: "matteLoop bgR bgG bgB (4 * j) data = matteLoop bgR bgG bgB (4 * Suc j) ?d"
    using lt by (subst matteLoop.simps) (simp add: Let_def closeToBg_def add.commute)
  have len: "length ?d = 4 * n" using Suc.prems by simp
  have m: "m = n - Suc j" using Suc.hyps by simp
  have IH: "matteLoop bgR bgG bgB (4 * Suc j) ?d ! k =
          (if k mod 4 = 3 \<and> Suc j \<le> k div 4 \<and> closeToBg bgR bgG bgB ?d (k div 4)
            then 0 else ?d ! k)"
    by (rule Suc.hyps(1) [OF m len Suc.prems(2)])
  have cl: "closeToBg bgR bgG bgB ?d (k div 4) = closeToBg bgR bgG bgB data (k div 4)"
    by simp
  show ?case
  proof (cases "k = 4 * j + 3")
    case True
    then have "k mod 4 = 3" "k div 4 = j" by presburger+
    then show ?thesis using True Suc.prems unfolding step IH cl by simp
  next
    case False
    then have "k mod 4 = 3 \<Longrightarrow> k div 4 \<noteq> j" by presburger
    then have "(k mod 4 = 3 \<and> Suc j \<le> k div 4) = (k mod 4 = 3 \<and> j \<le> k div 4)" by auto
    moreover have "?d ! k = data ! k" using False by simp
    ultimately show ?thesis unfolding step IH cl by auto
  qed
qed

lemma pixel_lt: "x < w \<Longrightarrow> y < h \<Longrightarrow> y * w + x < w * (h::nat)"
proof -
  assume a: "x < w" "y < h"
  then have "y * w + x < Suc y * w" by simp
  also have "\<dots> \<le> h * w" using a by (intro mult_le_mono1) simp
  finally show ?thesis by (simp add: mult.commute)
qed

lemma index_div [simp]: "((p::nat) * 4 + 3) div 4 = p" "(p * 4 + 3) mod 4 = 3"
  by presburger+

lemma matteLoop_alpha_index:
  assumes "length data = 4 * n" "p < n"
  shows "matteLoop bgR bgG bgB 0 data ! (p * 4 + 3) =
           (if closeToBg bgR bgG bgB data p then 0 else data ! (p * 4 + 3))"
proof -
  have "p * 4 + 3 < 4 * n" using assms(2) by simp
  from matteLoop_nth [OF assms(1) this, of bgR bgG bgB 0]
  show ?thesis by (simp add: index_div)
qed

lemma matteLoop_alpha:
  assumes len: "length data = 4 * (w * h)" and x: "x < w" and y: "y < h"
  shows "alphaAt (matteLoop bgR bgG bgB 0 data) w x y =
           (if closeToBg bgR bgG bgB data (y * w + x) then 0 else alphaAt data w x y)"
  unfolding alphaAt_def by (rule matteLoop_alpha_index [OF len pixel_lt [OF x y]])

lemma closeToBg_withinThreshold:
  "closeToBg (uint (data ! 0)) (uint (data ! 1)) (uint (data ! 2)) data (y * w + x)
     = withinThreshold data w x y"
  by (simp add: closeToBg_def withinThreshold_def rgbAt_def Let_def mult.commute numeral_2_eq_2)

lemma opaqueAt_alpha:
  "length data = 4 * (w * h) \<Longrightarrow> x < w \<Longrightarrow> y < h \<Longrightarrow>
   opaqueAt data w x y = (0 < uint (alphaAt data w x y))"
  using pixel_lt [of x w y h] by (simp add: opaqueAt_def alphaAt_def)

lemma mattePixels_alpha:
  assumes "length data = 4 * (w * h)" "x < w" "y < h"
  shows "alphaAt (fst (mattePixels w h data)) w x y =
           (if withinThreshold data w x y then 0 else alphaAt data w x y)"
proof -
  have "fst (mattePixels w h data) =
          matteLoop (uint (data ! 0)) (uint (data ! 1)) (uint (data ! 2)) 0 data"
    by (simp add: mattePixels_def Let_def)
  then show ?thesis
    unfolding closeToBg_withinThreshold [symmetric] by (simp only: matteLoop_alpha [OF assms])
qed

lemma mattePixels_box:
  "snd (mattePixels w h data) =
     boundsOf w h (scanImage (fst (mattePixels w h data)) w h (initBox w h))"
  by (simp add: mattePixels_def Let_def initBox_def)

lemma mattePixels_length [simp]: "length (fst (mattePixels w h data)) = length data"
  by (simp add: mattePixels_def Let_def)

subsection \<open>The bounding-box loop\<close>

lemma scanPixel_opaque:
  "scanPixel data w y x b =
     (if opaqueAt data w x y then
        \<lparr> minX = min (int x) (minX b), minY = min (int y) (minY b),
          maxX = max (int x) (maxX b), maxY = max (int y) (maxY b) \<rparr>
      else b)"
  by (simp add: scanPixel_def opaqueAt_def Let_def min_def max_def)

lemma scanPixel_inside:
  "x < w \<Longrightarrow> y < h \<Longrightarrow> boxInside w h b \<Longrightarrow> boxInside w h (scanPixel data w y x b)"
  by (auto simp: scanPixel_opaque boxInside_def initBox_def)

lemma scanRow_inside:
  "y < h \<Longrightarrow> boxInside w h b \<Longrightarrow> boxInside w h (scanRow data w y b)"
  unfolding scanRow_def
  by (rule fold_invariant [where Q = "\<lambda>x. x < w"]) (simp_all add: scanPixel_inside)

lemma scanImage_inside:
  "boxInside w h b \<Longrightarrow> boxInside w h (scanImage data w h b)"
  unfolding scanImage_def
  by (rule fold_invariant [where Q = "\<lambda>y. y < h"]) (simp_all add: scanRow_inside)

lemma boundsOf_inside:
  assumes "boxInside w h b"
  shows "0 \<le> cb_x (boundsOf w h b) \<and> 0 \<le> cb_y (boundsOf w h b) \<and>
         cb_x (boundsOf w h b) + cb_width (boundsOf w h b) \<le> int w \<and>
         cb_y (boundsOf w h b) + cb_height (boundsOf w h b) \<le> int h"
  using assms by (auto simp: boundsOf_def boxInside_def initBox_def)

lemma mattePixels_inside:
  "0 \<le> cb_x (snd (mattePixels w h data)) \<and> 0 \<le> cb_y (snd (mattePixels w h data)) \<and>
   cb_x (snd (mattePixels w h data)) + cb_width (snd (mattePixels w h data)) \<le> int w \<and>
   cb_y (snd (mattePixels w h data)) + cb_height (snd (mattePixels w h data)) \<le> int h"
proof -
  have "boxInside w h (initBox w h)" by (simp add: boxInside_def)
  then show ?thesis
    unfolding mattePixels_def Let_def snd_conv initBox_def [symmetric]
    by (intro boundsOf_inside scanImage_inside)
qed

text \<open>Without an opaque pixel the box stays as it was.\<close>

lemma scanImage_unchanged:
  assumes "\<And>x y. x < w \<Longrightarrow> y < h \<Longrightarrow> \<not> opaqueAt data w x y"
  shows "scanImage data w h b = b"
proof -
  have row: "scanRow data w y b = b" if "y < h" for y
    unfolding scanRow_def
    by (rule fold_invariant [where Q = "\<lambda>x. x < w" and P = "\<lambda>s. s = b"])
       (simp_all add: scanPixel_opaque assms that)
  show ?thesis
    unfolding scanImage_def
    by (rule fold_invariant [where Q = "\<lambda>y. y < h" and P = "\<lambda>s. s = b"])
       (simp_all add: row)
qed

text \<open>The box never leaves a rectangle that holds every opaque pixel.\<close>

lemma scanImage_bounded:
  assumes op: "\<And>x y. x < w \<Longrightarrow> y < h \<Longrightarrow> opaqueAt data w x y \<Longrightarrow>
                 lx \<le> int x \<and> int x \<le> ux \<and> ly \<le> int y \<and> int y \<le> uy"
    and b: "lx \<le> minX b \<and> maxX b \<le> ux \<and> ly \<le> minY b \<and> maxY b \<le> uy"
  shows "lx \<le> minX (scanImage data w h b) \<and> maxX (scanImage data w h b) \<le> ux \<and>
         ly \<le> minY (scanImage data w h b) \<and> maxY (scanImage data w h b) \<le> uy"
proof -
  let ?P = "\<lambda>s. lx \<le> minX s \<and> maxX s \<le> ux \<and> ly \<le> minY s \<and> maxY s \<le> uy"
  have px: "?P (scanPixel data w y x s)" if "x < w" "y < h" "?P s" for x y s
    using op [OF that(1,2)] that(3) by (auto simp: scanPixel_opaque)
  have row: "?P (scanRow data w y s)" if "y < h" "?P s" for y s
    unfolding scanRow_def
    by (rule fold_invariant [where Q = "\<lambda>x. x < w" and P = ?P])
       (simp_all add: px that del: bbox.simps)
  show ?thesis
    unfolding scanImage_def
    by (rule fold_invariant [where Q = "\<lambda>y. y < h" and P = ?P])
       (simp_all add: row b)
qed

text \<open>Every opaque pixel that was scanned lies in the box.\<close>

lemma scanPixel_keeps: "covers b x' y' \<Longrightarrow> covers (scanPixel data w y x b) x' y'"
  by (auto simp: scanPixel_opaque covers_def)

lemma scanPixel_covers: "opaqueAt data w x y \<Longrightarrow> covers (scanPixel data w y x b) x y"
  by (auto simp: scanPixel_opaque covers_def)

lemma fold_scanPixel_keeps:
  "covers b x' y' \<Longrightarrow> covers (fold (scanPixel data w y) xs b) x' y'"
  by (induction xs arbitrary: b) (simp_all add: scanPixel_keeps)

lemma fold_scanPixel_covers:
  "x < n \<Longrightarrow> opaqueAt data w x y \<Longrightarrow> covers (fold (scanPixel data w y) [0..<n] b) x y"
proof (induction n)
  case 0
  then show ?case by simp
next
  case (Suc n)
  show ?case
  proof (cases "x = n")
    case True
    then show ?thesis using Suc.prems by (simp add: scanPixel_covers)
  next
    case False
    then have "x < n" using Suc.prems by simp
    then show ?thesis using Suc by (simp add: scanPixel_keeps)
  qed
qed

lemma scanImage_covers:
  "x < w \<Longrightarrow> y < h \<Longrightarrow> opaqueAt data w x y \<Longrightarrow> covers (scanImage data w h b) x y"
  unfolding scanImage_def
proof (induction h)
  case 0
  then show ?case by simp
next
  case (Suc h)
  show ?case
  proof (cases "y = h")
    case True
    then show ?thesis using Suc.prems by (simp add: scanRow_def fold_scanPixel_covers)
  next
    case False
    then have "y < h" using Suc.prems by simp
    then show ?thesis using Suc by (simp add: scanRow_def fold_scanPixel_keeps)
  qed
qed

subsection \<open>The whole function\<close>

lemma process_ok:
  "0 < el_width img \<Longrightarrow> 0 < el_height img \<Longrightarrow>
   processImageForTransparency okEnv img =
     Inr \<lparr> transparentImage =
             img \<lparr> el_pixels := fst (mattePixels (el_width img) (el_height img) (el_pixels img)) \<rparr>,
           resultBounds = snd (mattePixels (el_width img) (el_height img) (el_pixels img)) \<rparr>"
  by (simp add: processImageForTransparency_def okEnv_def split_beta)

lemma process_cases:
  assumes "processImageForTransparency env img = Inr res"
  shows "res = \<lparr> transparentImage = img,
                 resultBounds = \<lparr> cb_x = 0, cb_y = 0, cb_width = int (el_width img),
                                  cb_height = int (el_height img) \<rparr> \<rparr>
         \<or> res = \<lparr> transparentImage =
                     img \<lparr> el_pixels := fst (mattePixels (el_width img) (el_height img) (el_pixels img)) \<rparr>,
                   resultBounds = snd (mattePixels (el_width img) (el_height img) (el_pixels img)) \<rparr>"
  using assms
  by (auto simp: processImageForTransparency_def split_beta split: if_splits)


subsection \<open>Buffers built pixel by pixel\<close>

lemma quads_length:
  "(\<And>p. length (f p) = 4) \<Longrightarrow> length (concat (map f [0..<n])) = 4 * n"
  by (induction n) simp_all

lemma quads_nth:
  assumes len: "\<And>p. length (f p) = 4" and p: "p < n" and c: "c < 4"
  shows "concat (map f [0..<n]) ! (p * 4 + c) = f p ! c"
  using p
proof (induction n)
  case 0
  then show ?case by simp
next
  case (Suc n)
  show ?case
  proof (cases "p = n")
    case True
    then show ?thesis using c len by (simp add: nth_append quads_length mult.commute)
  next
    case False
    then have "p < n" using Suc.prems by simp
    moreover from this have "p * 4 + c < 4 * n" using c by simp
    ultimately show ?thesis using Suc.IH len by (simp add: nth_append quads_length)
  qed
qed

lemma rasterOf_length:
  "(\<And>x y. length (pix x y) = 4) \<Longrightarrow> length (rasterOf w h pix) = 4 * (w * h)"
  unfolding rasterOf_def by (rule quads_length) simp

lemma rasterOf_nth:
  assumes len: "\<And>x y. length (pix x y) = 4" and x: "x < w" and y: "y < h" and c: "c < 4"
  shows "rasterOf w h pix ! ((y * w + x) * 4 + c) = pix x y ! c"
proof -
  have "rasterOf w h pix ! ((y * w + x) * 4 + c) = pix ((y * w + x) mod w) ((y * w + x) div w) ! c"
    unfolding rasterOf_def
    by (rule quads_nth [where f = "\<lambda>p. pix (p mod w) (p div w)"])
       (simp_all add: len c pixel_lt [OF x y])
  then show ?thesis using x by simp
qed

lemma rasterOf_rgba:
  assumes len: "\<And>x y. length (pix x y) = 4" and x: "x < w" and y: "y < h"
  shows "rgbaAt (rasterOf w h pix) w x y = (pix x y ! 0, pix x y ! 1, pix x y ! 2, pix x y ! 3)"
  using rasterOf_nth [OF len x y, of 0] rasterOf_nth [OF len x y, of 1]
    rasterOf_nth [OF len x y, of 2] rasterOf_nth [OF len x y, of 3]
  by (simp add: rgbaAt_def Let_def)

lemma rasterOf_rgb:
  assumes len: "\<And>x y. length (pix x y) = 4" and x: "x < w" and y: "y < h"
  shows "rgbAt (rasterOf w h pix) w x y = (pix x y ! 0, pix x y ! 1, pix x y ! 2)"
  using rasterOf_nth [OF len x y, of 0] rasterOf_nth [OF len x y, of 1]
    rasterOf_nth [OF len x y, of 2]
  by (simp add: rgbAt_def Let_def)

lemma tinyImage_matted:
  "processImageForTransparency okEnv tinyImage =
     Inr \<lparr> transparentImage = \<lparr> el_width = 2, el_height = 2,
                 el_pixels = [255, 255, 255, 0,   10, 20, 30, 255,
                              250, 250, 250, 0,   255, 255, 255, 0] \<rparr>,
           resultBounds = \<lparr> cb_x = 1, cb_y = 0, cb_width = 1, cb_height = 1 \<rparr> \<rparr>"
  unfolding tinyImage_def by code_simp

subsection \<open>The red square on white\<close>

text \<open>
  C1. Take an image of at least 61 by 61 pixels whose top-left pixel is white, whose
  pixels \<open>(20,20)\<close> to \<open>(60,60)\<close> are fully opaque red, and whose other pixels are
  background (within the threshold of the top-left pixel). Matting returns the content
  bounds \<open>{x: 20, y: 20, width: 41, height: 41}\<close>; in the returned image the alpha of
  every pixel outside the square is 0 and the square is still opaque.
\<close>

theorem matte_red_square:
  assumes len: "length (el_pixels img) = 4 * (el_width img * el_height img)"
    and w: "61 \<le> el_width img" and h: "61 \<le> el_height img"
    and tl: "rgbAt (el_pixels img) (el_width img) 0 0 = (255, 255, 255)"
    and px: "\<forall>x<el_width img. \<forall>y<el_height img.
               if inSquare x y then rgbaAt (el_pixels img) (el_width img) x y = (255, 0, 0, 255)
               else withinThreshold (el_pixels img) (el_width img) x y"
  shows "\<exists>res. processImageForTransparency okEnv img = Inr res
           \<and> resultBounds res = \<lparr> cb_x = 20, cb_y = 20, cb_width = 41, cb_height = 41 \<rparr>
           \<and> (\<forall>x<el_width img. \<forall>y<el_height img.
                 alphaAt (el_pixels (transparentImage res)) (el_width img) x y
                   = (if inSquare x y then 255 else 0))"
proof -
  let ?w = "el_width img" and ?h = "el_height img" and ?d = "el_pixels img"
  let ?d' = "fst (mattePixels ?w ?h ?d)"
  have pos: "0 < ?w" "0 < ?h" using w h by simp_all
  have close: "withinThreshold ?d ?w x y = (\<not> inSquare x y)" if "x < ?w" "y < ?h" for x y
  proof (cases "inSquare x y")
    case True
    then have "rgbaAt ?d ?w x y = (255, 0, 0, 255)" using px that by (metis (full_types))
    then have "rgbAt ?d ?w x y = (255, 0, 0)" by (simp add: rgbaAt_def rgbAt_def Let_def)
    then show ?thesis using True tl
      by (simp add: withinThreshold_def COLOR_DISTANCE_THRESHOLD_def)
  next
    case False
    then show ?thesis using px that by (metis (full_types))
  qed
  have alpha_in: "alphaAt ?d ?w x y = 255" if "x < ?w" "y < ?h" "inSquare x y" for x y
  proof -
    have "rgbaAt ?d ?w x y = (255, 0, 0, 255)" using px that by (metis (full_types))
    then show ?thesis by (simp add: rgbaAt_def alphaAt_def Let_def)
  qed
  have alpha': "alphaAt ?d' ?w x y = (if inSquare x y then 255 else 0)"
    if "x < ?w" "y < ?h" for x y
    using mattePixels_alpha [OF len that] close [OF that] alpha_in [OF that] by simp
  have opq: "opaqueAt ?d' ?w x y = inSquare x y" if "x < ?w" "y < ?h" for x y
    using opaqueAt_alpha [of ?d' ?w ?h x y] len that alpha' [OF that] by simp
  let ?box = "scanImage ?d' ?w ?h (initBox ?w ?h)"
  have c1: "covers ?box 20 20"
    using w h by (intro scanImage_covers) (simp_all add: opq inSquare_def)
  have c2: "covers ?box 60 60"
    using w h by (intro scanImage_covers) (simp_all add: opq inSquare_def)
  have bd: "20 \<le> minX ?box \<and> maxX ?box \<le> 60 \<and> 20 \<le> minY ?box \<and> maxY ?box \<le> 60"
  proof (rule scanImage_bounded)
    fix x y assume "x < ?w" "y < ?h" "opaqueAt ?d' ?w x y"
    then show "20 \<le> int x \<and> int x \<le> 60 \<and> 20 \<le> int y \<and> int y \<le> 60"
      by (simp add: opq inSquare_def)
  next
    show "20 \<le> minX (initBox ?w ?h) \<and> maxX (initBox ?w ?h) \<le> 60 \<and>
          20 \<le> minY (initBox ?w ?h) \<and> maxY (initBox ?w ?h) \<le> 60"
      using w h by (simp add: initBox_def)
  qed
  have box: "minX ?box = 20" "maxX ?box = 60" "minY ?box = 20" "maxY ?box = 60"
    using c1 c2 bd by (simp_all add: covers_def)
  have "snd (mattePixels ?w ?h ?d) = \<lparr> cb_x = 20, cb_y = 20, cb_width = 41, cb_height = 41 \<rparr>"
    by (simp add: mattePixels_box boundsOf_def box)
  then show ?thesis
    using alpha' by (simp add: process_ok [OF pos])
qed

text \<open>A 100 by 100 white image with the red square: the bounds, and six of its pixels.\<close>

theorem matte_red_square_witness:
  "matteBounds okEnv redSquareImage = Some \<lparr> cb_x = 20, cb_y = 20, cb_width = 41, cb_height = 41 \<rparr>
   \<and> map_option (\<lambda>d. (alphaAt d 100 0 0, alphaAt d 100 19 20, alphaAt d 100 20 20,
                         alphaAt d 100 60 60, alphaAt d 100 61 60, alphaAt d 100 99 99))
        (mattedPixels okEnv redSquareImage) = Some (0, 0, 255, 255, 0, 0)"
proof -
  let ?pix = "\<lambda>x y. if inSquare x y then [255, 0, 0, 255] else [255, 255, 255, 255 :: byte]"
  have l4: "length (?pix x y) = 4" for x y by simp
  have len: "length (el_pixels redSquareImage) = 4 * (el_width redSquareImage * el_height redSquareImage)"
    by (simp add: redSquareImage_def rasterOf_length)
  have tl: "rgbAt (el_pixels redSquareImage) (el_width redSquareImage) 0 0 = (255, 255, 255)"
    using rasterOf_rgb [of ?pix 0 100 0 100, OF l4]
    by (simp add: redSquareImage_def inSquare_def)
  have px: "\<forall>x<el_width redSquareImage. \<forall>y<el_height redSquareImage.
               if inSquare x y
               then rgbaAt (el_pixels redSquareImage) (el_width redSquareImage) x y = (255, 0, 0, 255)
               else withinThreshold (el_pixels redSquareImage) (el_width redSquareImage) x y"
    using tl
    by (simp add: redSquareImage_def withinThreshold_def rasterOf_rgb [of ?pix, OF l4]
          rasterOf_rgba [of ?pix, OF l4] COLOR_DISTANCE_THRESHOLD_def)
  have w: "61 \<le> el_width redSquareImage" "61 \<le> el_height redSquareImage"
    by (simp_all add: redSquareImage_def)
  from matte_red_square [OF len w tl px] obtain res where
    r: "processImageForTransparency okEnv redSquareImage = Inr res"
      "resultBounds res = \<lparr> cb_x = 20, cb_y = 20, cb_width = 41, cb_height = 41 \<rparr>"
      "\<forall>x<el_width redSquareImage. \<forall>y<el_height redSquareImage.
                 alphaAt (el_pixels (transparentImage res)) (el_width redSquareImage) x y
                   = (if inSquare x y then 255 else 0)"
    by blast
  have a: "alphaAt (el_pixels (transparentImage res)) 100 x y = (if inSquare x y then 255 else 0)"
    if "x < 100" "y < 100" for x y
    using r(3) that by (simp add: redSquareImage_def)
  show ?thesis
    using r(1,2) by (simp add: matteBounds_def mattedPixels_def a inSquare_def)
qed

subsection \<open>The fallback to the full rectangle\<close>

text \<open>
  C2. When every pixel of the image is within the colour-distance threshold of the
  top-left pixel, no opaque pixel survives and the content bounds that matting returns
  are the full rectangle \<open>{x: 0, y: 0, width, height}\<close> of the image: in every browser
  in which matting returns, and it does return when every step succeeds.
\<close>

theorem matte_uniform_fallback:
  assumes len: "length (el_pixels img) = 4 * (el_width img * el_height img)"
    and bg: "\<forall>x<el_width img. \<forall>y<el_height img. withinThreshold (el_pixels img) (el_width img) x y"
  shows "(\<forall>env res. processImageForTransparency env img = Inr res \<longrightarrow>
            resultBounds res = \<lparr> cb_x = 0, cb_y = 0, cb_width = int (el_width img),
                                 cb_height = int (el_height img) \<rparr>)
         \<and> matteBounds okEnv img =
             Some \<lparr> cb_x = 0, cb_y = 0, cb_width = int (el_width img),
                    cb_height = int (el_height img) \<rparr>"
proof -
  let ?w = "el_width img" and ?h = "el_height img" and ?d = "el_pixels img"
  let ?d' = "fst (mattePixels ?w ?h ?d)"
  let ?full = "\<lparr> cb_x = 0, cb_y = 0, cb_width = int ?w, cb_height = int ?h \<rparr>"
  have "\<not> opaqueAt ?d' ?w x y" if "x < ?w" "y < ?h" for x y
    using that bg mattePixels_alpha [OF len that] opaqueAt_alpha [of ?d' ?w ?h x y] len
    by simp
  then have "scanImage ?d' ?w ?h (initBox ?w ?h) = initBox ?w ?h"
    by (rule scanImage_unchanged)
  then have full: "snd (mattePixels ?w ?h ?d) = ?full"
    by (simp add: mattePixels_box boundsOf_def initBox_def)
  have any: "resultBounds res = ?full" if "processImageForTransparency env img = Inr res" for env res
    using process_cases [OF that] full by auto
  have "matteBounds okEnv img = Some ?full"
  proof (cases "0 < ?w \<and> 0 < ?h")
    case True
    then show ?thesis using full by (simp add: matteBounds_def process_ok)
  next
    case False
    then show ?thesis
      by (auto simp: matteBounds_def processImageForTransparency_def okEnv_def)
  qed
  then show ?thesis using any by blast
qed

text \<open>The uniform white image of 100 by 100 pixels.\<close>

theorem matte_uniform_fallback_witness:
  "matteBounds okEnv whiteImage = Some \<lparr> cb_x = 0, cb_y = 0, cb_width = 100, cb_height = 100 \<rparr>"
proof -
  have len: "length (el_pixels whiteImage) = 4 * (el_width whiteImage * el_height whiteImage)"
    by (simp add: whiteImage_def rasterOf_length)
  have bg: "\<forall>x<el_width whiteImage. \<forall>y<el_height whiteImage.
              withinThreshold (el_pixels whiteImage) (el_width whiteImage) x y"
    by (simp add: whiteImage_def withinThreshold_def rasterOf_rgb COLOR_DISTANCE_THRESHOLD_def)
  from matte_uniform_fallback [OF len bg] show ?thesis by (simp add: whiteImage_def)
qed

subsection \<open>The bounds stay inside the image\<close>

text \<open>
  C3. For every image and every browser, the content bounds that matting returns satisfy
  \<open>0 \<le> x\<close>, \<open>0 \<le> y\<close>, \<open>x + width \<le>\<close> image width and \<open>y + height \<le>\<close> image
  height, in the tight case and in both fallback cases; and matting does return when
  every step of the browser succeeds.
\<close>

theorem matte_bounds_inside_image:
  "(\<forall>res. processImageForTransparency env img = Inr res \<longrightarrow>
      0 \<le> cb_x (resultBounds res) \<and> 0 \<le> cb_y (resultBounds res) \<and>
      cb_x (resultBounds res) + cb_width (resultBounds res) \<le> int (el_width img) \<and>
      cb_y (resultBounds res) + cb_height (resultBounds res) \<le> int (el_height img))
   \<and> \<not> isl (processImageForTransparency okEnv img)"
proof -
  have "\<not> isl (processImageForTransparency okEnv img)"
    by (simp add: processImageForTransparency_def okEnv_def split_beta)
  moreover have "0 \<le> cb_x (resultBounds res) \<and> 0 \<le> cb_y (resultBounds res) \<and>
      cb_x (resultBounds res) + cb_width (resultBounds res) \<le> int (el_width img) \<and>
      cb_y (resultBounds res) + cb_height (resultBounds res) \<le> int (el_height img)"
    if "processImageForTransparency env img = Inr res" for res
    using process_cases [OF that] mattePixels_inside [of "el_width img" "el_height img" "el_pixels img"]
    by auto
  ultimately show ?thesis by blast
qed

text \<open>The two by two image: its matted pixels, and its bounds inside two by two.\<close>

theorem matte_bounds_inside_image_witness:
  "processImageForTransparency okEnv tinyImage =
     Inr \<lparr> transparentImage = \<lparr> el_width = 2, el_height = 2,
                 el_pixels = [255, 255, 255, 0,   10, 20, 30, 255,
                              250, 250, 250, 0,   255, 255, 255, 0] \<rparr>,
           resultBounds = \<lparr> cb_x = 1, cb_y = 0, cb_width = 1, cb_height = 1 \<rparr> \<rparr>
   \<and> (0::int) \<le> 1 \<and> (0::int) \<le> 0 \<and> (1::int) + 1 \<le> int (el_width tinyImage)
   \<and> (0::int) + 1 \<le> int (el_height tinyImage)"
  using matte_bounds_inside_image [of okEnv tinyImage] tinyImage_matted by simp

section \<open>Properties of the registry and its handlers\<close>

declare decimal.simps [simp del] multiplePrompt.simps [simp del]

subsection \<open>The example sessions, step by step\<close>

lemma awaitImage_castle_any:
  "awaitImage (castleAwaited \<lparr> suggestionCall := sc \<rparr>)
     = Inr (''data:image/png;base64,castle'', returnedResult)"
  by (simp add: awaitImage_def castleAwaited_def process_ok returnedImage_def returnedResult_def)

lemma awaitSuggestions_castle_any:
  "awaitSuggestions (castleAwaited \<lparr> suggestionCall := sc \<rparr>) timg = sc"
  by (simp add: awaitSuggestions_def castleAwaited_def imageElementToFile_def okBlobs_def)

lemma awaitImage_castle:
  "awaitImage castleAwaited = Inr (''data:image/png;base64,castle'', returnedResult)"
  using awaitImage_castle_any [of "suggestionCall castleAwaited"] by simp

lemma awaitSuggestions_castle:
  "awaitSuggestions castleAwaited timg = Inr [''Make it taller'']"
  by (simp add: awaitSuggestions_def castleAwaited_def imageElementToFile_def okBlobs_def)

lemma suggestionCall_castle: "suggestionCall castleAwaited = Inr [''Make it taller'']"
  by (simp add: castleAwaited_def)

lemma awaitImage_conversionFails:
  "awaitImage conversionFails = Inr (''data:image/png;base64,castle'', returnedResult)"
  by (simp add: awaitImage_def conversionFails_def castleAwaited_def process_ok
        returnedImage_def returnedResult_def)

lemma awaitSuggestions_conversionFails:
  "awaitSuggestions conversionFails timg = Inl (ConversionError ''Canvas to Blob conversion failed'')"
  by (simp add: awaitSuggestions_def conversionFails_def castleAwaited_def imageElementToFile_def)

lemma trim_castle: "trim ''castle'' = ''castle''"
  by (simp add: trim_def isWhiteSpace_def)

lemma castleSubmitted_images:
  "images castleSubmitted =
     [(blankSprite 0 375 275 250 250)
        \<lparr> sourceText := Some ''castle'', flippedHorizontally := Some False,
          isVariation := Some False,
          originalPrompt := Some (TEXT_PROMPT_TEMPLATE ''castle''), createdAt := Some 0 \<rparr>]"
  by (simp add: castleSubmitted_def handleTextSubmit_def initialState_def trim_castle Let_def
        generateFromText_start_def setOriginalPrompt_def blankSprite_def)


lemma castleReady_images:
  "images castleReady =
     [completedFromText ''data:image/png;base64,castle'' returnedResult [''Make it taller''] 0 5000
        ((blankSprite 0 375 275 250 250)
           \<lparr> sourceText := Some ''castle'', flippedHorizontally := Some False,
             isVariation := Some False,
             originalPrompt := Some (TEXT_PROMPT_TEMPLATE ''castle''), createdAt := Some 0 \<rparr>)]"
  by (simp add: castleReady_def castleSubmitted_images generateFromText_complete_def
        awaitImage_castle awaitSuggestions_castle blankSprite_def)

lemma photoSubmitted_images:
  "images photoSubmitted =
     [(blankSprite 0 375 300 250 200)
        \<lparr> sourceFile := Some (File ''photo.png''), sourcePreviewUrl := Some ''blob:photo'',
          flippedHorizontally := Some False, isVariation := Some False,
          originalPrompt := Some IMAGE_PROMPT, createdAt := Some 0 \<rparr>]"
proof -
  have "IMAGE_PROMPT \<noteq> []"
    by (simp add: IMAGE_PROMPT_def PROMPT_PREFIX_IMAGE_def)
  then show ?thesis
    by (simp add: photoSubmitted_def addImageToCanvas_def initialState_def Let_def
        generateFromImage_start_def setOriginalPrompt_def blankSprite_def)
qed

lemma multiReady_images:
  "images multiReady =
     [completedFromMultiple ''data:image/png;base64,castle'' returnedResult [''Make it taller''] 0 5000
        ((blankSprite 0 (625 / 2) (425 / 2) 375 375)
           \<lparr> sourceFile := Some (File ''a.png''), sourcePreviewUrl := Some ''blob:a'',
             generatingPrompt := Some (''Combining '' @ decimal 2 @ '' images...''),
             img_scale := Some 1,
             originalPrompt := Some (multiplePrompt ModePixel 2), createdAt := Some 0 \<rparr>)]"
  by (simp add: multiReady_def multiSubmitted_def handleMultipleImageUpload_def initialState_def
        Let_def setOriginalPrompt_def blankSprite_def IMAGE_WIDTH_def
        generateFromMultipleImages_complete_def awaitImage_castle suggestionCall_castle
        numeral_2_eq_2)

subsection \<open>Hit testing and the flip\<close>

lemma hitsSprite_ignores_flip:
  "hitsSprite x y (img \<lparr> flippedHorizontally := f \<rparr>) = hitsSprite x y img"
  by (simp add: hitsSprite_def inScaledRect_def split: option.split)

text \<open>
  C4. The claim: hit testing mirrors a flipped sprite as drawing does. The code: a
  finished sprite at the origin whose content bounds are the left 75 columns of its 375
  columns. Not flipped, the pointer \<open>(30, 100)\<close> hits it, and drawing paints column 30
  at abscissa 30. Flipped, drawing paints column 30 at abscissa 345, but the pointer
  \<open>(345, 100)\<close> hits nothing, and the pointer \<open>(30, 100)\<close>, where transparent columns
  are painted, still hits the sprite: \<open>getImageAtPosition\<close> never reads
  \<open>flippedHorizontally\<close>.
\<close>

theorem hit_test_not_mirrored:
  "getImageAtPosition 30 100 [leftContentSprite False] = Some (leftContentSprite False)
   \<and> paintedX (drawFinished (leftContentSprite False)) 30 = 30
   \<and> paintedX (drawFinished (leftContentSprite True)) 30 = 345
   \<and> getImageAtPosition 345 100 [leftContentSprite True] = None
   \<and> getImageAtPosition 30 100 [leftContentSprite True] = Some (leftContentSprite True)"
proof -
  have r: "js_round 0 = 0" by (simp add: js_round_def)
  show ?thesis
    by (simp add: getImageAtPosition_def hitsSprite_def inScaledRect_def leftContentSprite_def
          blankSprite_def leftContentImage_def Let_def paintedX_def drawFinished_def r)
qed

subsection \<open>The guard of the actions\<close>



subsection \<open>A generation whose suggestion call fails\<close>

text \<open>
  C6, as stated, fails: the image call and the matting succeed and the suggestion call
  fails, and the generation empties a registry that held the one sprite with id 0. The
  same happens when the suggestion call is never reached, because the matted image could
  not be converted to the file it takes.
\<close>

theorem suggestion_failure_removes_sprite:
  "\<not> isl (awaitImage suggestionFails)
   \<and> suggestionCall suggestionFails = Inl SuggestionError
   \<and> map img_id (images photoSubmitted) = [0]
   \<and> generateFromImage_complete 0 suggestionFails 0 5000 (images photoSubmitted) = []
   \<and> \<not> isl (awaitImage conversionFails)
   \<and> generateFromImage_complete 0 conversionFails 0 5000 (images photoSubmitted) = []"
proof -
  have 1: "generateFromImage_complete 0 suggestionFails 0 5000 (images photoSubmitted) = []"
    using awaitImage_castle_any [of "Inl SuggestionError"]
      awaitSuggestions_castle_any [of "Inl SuggestionError"]
    by (simp add: suggestionFails_def generateFromImage_complete_def photoSubmitted_images
          blankSprite_def)
  have 2: "generateFromImage_complete 0 conversionFails 0 5000 (images photoSubmitted) = []"
    by (simp add: generateFromImage_complete_def awaitImage_conversionFails
          awaitSuggestions_conversionFails photoSubmitted_images blankSprite_def)
  show ?thesis
    using 1 2 awaitImage_castle_any [of "Inl SuggestionError"]
    by (simp add: suggestionFails_def awaitImage_conversionFails photoSubmitted_images
          blankSprite_def)
qed

text \<open>
  C6, amended. Let the image call and the matting succeed. When the suggestion step
  (the conversion of the matted image to a file, then the suggestion call) returns a
  list, which may be empty, the generation patches the sprite with the id and removes no
  sprite: the patched sprite is not generating, holds the matted image and holds exactly
  that list. When the suggestion step fails, the generation removes the sprite with the
  id from the registry. This holds for \<open>generateFromImage\<close> and for
  \<open>generateFromText\<close>.
\<close>

theorem suggestion_step_decides:
  assumes ok: "awaitImage aw = Inr (imageUrl, res)"
  shows "(\<forall>suggestions. awaitSuggestions aw (transparentImage res) = Inr suggestions \<longrightarrow>
            generateFromImage_complete ident aw startTime endTime prev
              = map (\<lambda>img. if img_id img \<noteq> ident then img
                            else completedFromImage imageUrl res suggestions startTime endTime img) prev
          \<and> generateFromText_complete ident aw startTime endTime prev
              = map (\<lambda>img. if img_id img \<noteq> ident then img
                            else completedFromText imageUrl res suggestions startTime endTime img) prev
          \<and> map img_id (generateFromImage_complete ident aw startTime endTime prev) = map img_id prev
          \<and> map img_id (generateFromText_complete ident aw startTime endTime prev) = map img_id prev
          \<and> \<not> isGenerating (completedFromImage imageUrl res suggestions startTime endTime img)
          \<and> processedImage (completedFromImage imageUrl res suggestions startTime endTime img)
              = Some (transparentImage res)
          \<and> remixSuggestions (completedFromImage imageUrl res suggestions startTime endTime img)
              = Some suggestions
          \<and> \<not> isGenerating (completedFromText imageUrl res suggestions startTime endTime img)
          \<and> processedImage (completedFromText imageUrl res suggestions startTime endTime img)
              = Some (transparentImage res)
          \<and> remixSuggestions (completedFromText imageUrl res suggestions startTime endTime img)
              = Some suggestions)
       \<and> (\<forall>e. awaitSuggestions aw (transparentImage res) = Inl e \<longrightarrow>
            generateFromImage_complete ident aw startTime endTime prev
              = filter (\<lambda>img. img_id img \<noteq> ident) prev
          \<and> generateFromText_complete ident aw startTime endTime prev
              = filter (\<lambda>img. img_id img \<noteq> ident) prev)"
proof -
  have ids: "map img_id (map (\<lambda>img. if img_id img \<noteq> ident then img else f img) prev) = map img_id prev"
    if "\<And>img. img_id (f img) = img_id img" for f :: "sprite \<Rightarrow> sprite"
    using that by (induction prev) simp_all
  have i1: "img_id (completedFromImage imageUrl res s startTime endTime img) = img_id img" for s img
    by (simp add: completedFromImage_def Let_def)
  have i2: "img_id (completedFromText imageUrl res s startTime endTime img) = img_id img" for s img
    by (simp add: completedFromText_def Let_def)
  show ?thesis
    using ok ids [of "completedFromImage imageUrl res _ startTime endTime", OF i1]
      ids [of "completedFromText imageUrl res _ startTime endTime", OF i2]
    by (simp add: generateFromImage_complete_def generateFromText_complete_def
          completedFromImage_def completedFromText_def Let_def)
qed

text \<open>
  The sprite of one added image: an empty list of suggestions leaves it finished with
  that empty list; a failed suggestion call, or a blob that is not made, removes it.
\<close>

theorem suggestion_step_decides_witness:
  "map img_id (generateFromImage_complete 0 (castleAwaited \<lparr> suggestionCall := Inr [] \<rparr>) 0 5000
                 (images photoSubmitted)) = [0]
   \<and> map isGenerating (generateFromImage_complete 0 (castleAwaited \<lparr> suggestionCall := Inr [] \<rparr>) 0 5000
                 (images photoSubmitted)) = [False]
   \<and> map remixSuggestions (generateFromImage_complete 0 (castleAwaited \<lparr> suggestionCall := Inr [] \<rparr>) 0 5000
                 (images photoSubmitted)) = [Some []]
   \<and> generateFromImage_complete 0 suggestionFails 0 5000 (images photoSubmitted) = []
   \<and> generateFromImage_complete 0 conversionFails 0 5000 (images photoSubmitted) = []"
proof -
  note a = suggestion_step_decides [OF awaitImage_castle_any [of "Inr []"],
      of 0 0 5000 "images photoSubmitted"]
  note b = suggestion_step_decides [OF awaitImage_castle_any [of "Inl SuggestionError"],
      of 0 0 5000 "images photoSubmitted"]
  note c = suggestion_step_decides [OF awaitImage_conversionFails, of 0 0 5000 "images photoSubmitted"]
  have 1: "generateFromImage_complete 0 (castleAwaited \<lparr> suggestionCall := Inr [] \<rparr>) 0 5000
             (images photoSubmitted)
          = map (\<lambda>img. if img_id img \<noteq> 0 then img
                  else completedFromImage ''data:image/png;base64,castle'' returnedResult [] 0 5000 img)
                (images photoSubmitted)"
    using a awaitSuggestions_castle_any [of "Inr []"] by simp
  have 2: "generateFromImage_complete 0 suggestionFails 0 5000 (images photoSubmitted) = []"
    using b awaitSuggestions_castle_any [of "Inl SuggestionError"]
    by (simp add: suggestionFails_def photoSubmitted_images blankSprite_def)
  have 3: "generateFromImage_complete 0 conversionFails 0 5000 (images photoSubmitted) = []"
    using c awaitSuggestions_conversionFails by (simp add: photoSubmitted_images blankSprite_def)
  show ?thesis
    unfolding 1 2 3
    by (simp add: photoSubmitted_images blankSprite_def completedFromImage_def Let_def)
qed

subsection \<open>A completion for a sprite that is gone\<close>

lemma map_absent:
  "ident \<notin> img_id ` set prev \<Longrightarrow>
   map (\<lambda>img. if img_id img \<noteq> ident then img else f img) prev = prev"
  by (induction prev) auto

lemma filter_absent:
  "ident \<notin> img_id ` set prev \<Longrightarrow> filter (\<lambda>img. img_id img \<noteq> ident) prev = prev"
  by (induction prev) auto

text \<open>On a registry without the id, a generation changes nothing, whatever its outcome.\<close>

lemma complete_absent:
  assumes "ident \<notin> img_id ` set prev"
  shows "generateFromImage_complete ident aw startTime endTime prev = prev"
    and "generateFromText_complete ident aw startTime endTime prev = prev"
    and "generateFromMultipleImages_complete ident aw startTime endTime prev = prev"
  using assms
  by (simp_all add: generateFromImage_complete_def generateFromText_complete_def
        generateFromMultipleImages_complete_def map_absent filter_absent
        split: sum.splits prod.splits)

text \<open>
  C7. Once the sprites with an id are filtered out of the registry (as the delete
  handler and the catch block do), or the registry is reset, what a generation for that
  id does at its completion, patch or removal, leaves the registry exactly as it is:
  nothing is inserted, nothing fails. This holds for \<open>generateFromImage\<close> and for
  \<open>generateFromText\<close>, whatever their awaits yield.
\<close>

theorem completion_of_deleted_sprite:
  "generateFromImage_complete ident aw startTime endTime (filter (\<lambda>img. img_id img \<noteq> ident) prev)
     = filter (\<lambda>img. img_id img \<noteq> ident) prev
   \<and> generateFromText_complete ident aw startTime endTime (filter (\<lambda>img. img_id img \<noteq> ident) prev)
     = filter (\<lambda>img. img_id img \<noteq> ident) prev
   \<and> generateFromImage_complete ident aw startTime endTime (images (handleResetCanvas st))
     = images (handleResetCanvas st)
   \<and> generateFromText_complete ident aw startTime endTime (images (handleResetCanvas st))
     = images (handleResetCanvas st)"
proof -
  have "ident \<notin> img_id ` set (filter (\<lambda>img. img_id img \<noteq> ident) prev)" by auto
  moreover have "ident \<notin> img_id ` set (images (handleResetCanvas st))"
    by (simp add: handleResetCanvas_def)
  ultimately show ?thesis by (simp add: complete_absent)
qed

text \<open>The finished sprite of "castle" is deleted; a second completion for its id is lost.\<close>

theorem completion_of_deleted_sprite_witness:
  "\<not> isActionDisabled castleReady
   \<and> images (handleDeleteSelected castleReady) = []
   \<and> generateFromText_complete 0 castleAwaited 0 9000 (images (handleDeleteSelected castleReady)) = []"
proof -
  have sel: "selectedImageId castleReady = Some 0" by (simp add: castleReady_def)
  have a: "\<not> isActionDisabled castleReady"
    by (simp add: isActionDisabled_def selectedImage_def sel castleReady_images
          completedFromText_def blankSprite_def Let_def)
  have d: "images (handleDeleteSelected castleReady)
             = filter (\<lambda>img. img_id img \<noteq> 0) (images castleReady)"
    using a by (simp add: handleDeleteSelected_def sel)
  have e: "filter (\<lambda>img. img_id img \<noteq> 0) (images castleReady) = []"
    by (simp add: castleReady_images completedFromText_def blankSprite_def Let_def)
  from completion_of_deleted_sprite [of 0 castleAwaited 0 9000 "images castleReady"]
  show ?thesis using a d e by simp
qed

subsection \<open>The size and the place of a finished text sprite\<close>




subsection \<open>Flipping twice\<close>

lemma find_map_same:
  "(\<And>x. P (f x) = P x) \<Longrightarrow> find P (map f xs) = map_option f (find P xs)"
  by (induction xs) simp_all

lemma filter_map_others:
  "(\<And>img. img_id (f img) = img_id img) \<Longrightarrow>
   filter (\<lambda>img. Some (img_id img) \<noteq> s) (map (\<lambda>img. if Some (img_id img) = s then f img else img) xs)
     = filter (\<lambda>img. Some (img_id img) \<noteq> s) xs"
  by (induction xs) simp_all

lemma selected_found:
  assumes "\<not> isActionDisabled st"
  shows "\<exists>sel img. selectedImageId st = Some sel \<and>
           find (\<lambda>img. Some (img_id img) = selectedImageId st) (images st) = Some img \<and>
           \<not> isGenerating img"
  using assms
  by (auto simp: isActionDisabled_def selectedImage_def split: option.splits)

lemma flip_enabled:
  assumes "\<not> isActionDisabled st"
  shows "handleFlipSelected st = st \<lparr> images := flipImages st \<rparr>"
  using assms selected_found [OF assms]
  by (auto simp: handleFlipSelected_def flipImages_def)

text \<open>After a flip the sprite is still selected and still not generating.\<close>

lemma flip_keeps_enabled:
  assumes "\<not> isActionDisabled st"
  shows "\<not> isActionDisabled (handleFlipSelected st)"
proof -
  obtain sel img where s: "selectedImageId st = Some sel"
    and f: "find (\<lambda>img. img_id img = sel) (images st) = Some img" and g: "\<not> isGenerating img"
    using assms by (auto simp: isActionDisabled_def selectedImage_def split: option.splits)
  have "find (\<lambda>img. img_id img = sel) (flipImages st)
          = map_option (\<lambda>img. if Some (img_id img) = selectedImageId st
                                then img \<lparr> flippedHorizontally := Some (\<not> truthy (flippedHorizontally img)) \<rparr>
                                else img)
              (find (\<lambda>img. img_id img = sel) (images st))"
    unfolding flipImages_def by (rule find_map_same) simp
  then show ?thesis
    using s f g by (simp add: flip_enabled [OF assms] isActionDisabled_def selectedImage_def)
qed

lemma flip_twice:
  assumes en: "\<not> isActionDisabled st"
  shows "handleFlipSelected (handleFlipSelected st)
           = st \<lparr> images := map (\<lambda>img. if Some (img_id img) = selectedImageId st
                                       then img \<lparr> flippedHorizontally := Some (truthy (flippedHorizontally img)) \<rparr>
                                       else img) (images st) \<rparr>"
proof -
  let ?st' = "handleFlipSelected st"
  have one: "?st' = st \<lparr> images := flipImages st \<rparr>" by (rule flip_enabled [OF en])
  have two: "handleFlipSelected ?st' = ?st' \<lparr> images := flipImages ?st' \<rparr>"
    by (rule flip_enabled [OF flip_keeps_enabled [OF en]])
  have twice: "flipImages (st \<lparr> images := flipImages st \<rparr>)
      = map (\<lambda>img. if Some (img_id img) = selectedImageId st
                    then img \<lparr> flippedHorizontally := Some (truthy (flippedHorizontally img)) \<rparr>
                    else img) (images st)"
    by (simp add: flipImages_def)
  show ?thesis using two twice unfolding one by simp
qed

text \<open>
  C9, as stated, fails: the sprite that combines two images is created without the
  field \<open>flippedHorizontally\<close>, and its completion leaves the field absent. Selected and
  finished, it is flipped twice: the field is then \<open>false\<close>, and the state is not the
  state before.
\<close>

theorem flip_twice_changes_absent_flag:
  "\<not> isActionDisabled multiReady
   \<and> map flippedHorizontally (images multiReady) = [None]
   \<and> map flippedHorizontally (images (handleFlipSelected (handleFlipSelected multiReady))) = [Some False]
   \<and> handleFlipSelected (handleFlipSelected multiReady) \<noteq> multiReady"
proof -
  have sel: "selectedImageId multiReady = Some 0" by (simp add: multiReady_def)
  have a: "\<not> isActionDisabled multiReady"
    by (simp add: isActionDisabled_def selectedImage_def sel multiReady_images
          completedFromMultiple_def blankSprite_def Let_def)
  have b: "map flippedHorizontally (images multiReady) = [None]"
    by (simp add: multiReady_images completedFromMultiple_def blankSprite_def Let_def)
  have c: "map flippedHorizontally (images (handleFlipSelected (handleFlipSelected multiReady))) = [Some False]"
    by (simp add: flip_twice [OF a] sel multiReady_images completedFromMultiple_def
          blankSprite_def Let_def)
  have "handleFlipSelected (handleFlipSelected multiReady) \<noteq> multiReady"
    using b c by auto
  then show ?thesis using a b c by simp
qed

text \<open>
  C9, amended. For every state whose selected sprite is not generating, two flips
  return every field of every sprite to its value before, except that the field
  \<open>flippedHorizontally\<close> of a sprite with the selected id ends as the boolean it read as
  (an absent field reads as false and ends as \<open>false\<close>); when that field was present,
  the state after two flips is exactly the state before. One flip changes nothing but
  the field \<open>flippedHorizontally\<close> of the sprites with the selected id.
\<close>

theorem flip_twice_restores:
  assumes en: "\<not> isActionDisabled st"
  shows "handleFlipSelected (handleFlipSelected st)
           = st \<lparr> images := map (\<lambda>img. if Some (img_id img) = selectedImageId st
                                       then img \<lparr> flippedHorizontally := Some (truthy (flippedHorizontally img)) \<rparr>
                                       else img) (images st) \<rparr>
         \<and> ((\<forall>img \<in> set (images st). Some (img_id img) = selectedImageId st \<longrightarrow>
                flippedHorizontally img \<noteq> None) \<longrightarrow>
              handleFlipSelected (handleFlipSelected st) = st)
         \<and> map (\<lambda>img. img \<lparr> flippedHorizontally := None \<rparr>) (images (handleFlipSelected st))
             = map (\<lambda>img. img \<lparr> flippedHorizontally := None \<rparr>) (images st)
         \<and> filter (\<lambda>img. Some (img_id img) \<noteq> selectedImageId st) (images (handleFlipSelected st))
             = filter (\<lambda>img. Some (img_id img) \<noteq> selectedImageId st) (images st)
         \<and> selectedImageId (handleFlipSelected st) = selectedImageId st
         \<and> nextId (handleFlipSelected st) = nextId st
         \<and> gameMode (handleFlipSelected st) = gameMode st"
proof -
  let ?st' = "handleFlipSelected st"
  have one: "?st' = st \<lparr> images := flipImages st \<rparr>" by (rule flip_enabled [OF en])
  note A = flip_twice [OF en]
  have B: "handleFlipSelected ?st' = st"
    if "\<forall>img \<in> set (images st). Some (img_id img) = selectedImageId st \<longrightarrow> flippedHorizontally img \<noteq> None"
  proof -
    have same: "img \<lparr> flippedHorizontally := Some (truthy (flippedHorizontally img)) \<rparr> = img"
      if "flippedHorizontally img \<noteq> None" for img :: sprite
      using that by (cases img) auto
    have "map (\<lambda>img. if Some (img_id img) = selectedImageId st
                    then img \<lparr> flippedHorizontally := Some (truthy (flippedHorizontally img)) \<rparr>
                    else img) (images st) = images st"
      by (rule map_idI) (use that same in auto)
    then show ?thesis unfolding A by simp
  qed
  have C: "map (\<lambda>img. img \<lparr> flippedHorizontally := None \<rparr>) (flipImages st)
             = map (\<lambda>img. img \<lparr> flippedHorizontally := None \<rparr>) (images st)"
    by (simp add: flipImages_def comp_def if_distrib cong: if_cong)
  have D: "filter (\<lambda>img. Some (img_id img) \<noteq> selectedImageId st) (flipImages st)
             = filter (\<lambda>img. Some (img_id img) \<noteq> selectedImageId st) (images st)"
    unfolding flipImages_def by (rule filter_map_others) simp
  show ?thesis
    using A B C D one by simp
qed

text \<open>The finished sprite of "castle", created with the flag \<open>false\<close>: flipped, then back.\<close>

theorem flip_twice_restores_witness:
  "\<not> isActionDisabled castleReady
   \<and> map flippedHorizontally (images castleReady) = [Some False]
   \<and> map flippedHorizontally (images (handleFlipSelected castleReady)) = [Some True]
   \<and> handleFlipSelected (handleFlipSelected castleReady) = castleReady"
proof -
  have sel: "selectedImageId castleReady = Some 0" by (simp add: castleReady_def)
  have a: "\<not> isActionDisabled castleReady"
    by (simp add: isActionDisabled_def selectedImage_def sel castleReady_images
          completedFromText_def blankSprite_def Let_def)
  have b: "map flippedHorizontally (images castleReady) = [Some False]"
    by (simp add: castleReady_images completedFromText_def blankSprite_def Let_def)
  have c: "map flippedHorizontally (images (handleFlipSelected castleReady)) = [Some True]"
    by (simp add: flip_enabled [OF a] flipImages_def sel
          castleReady_images completedFromText_def blankSprite_def Let_def)
  have d: "\<forall>img \<in> set (images castleReady). Some (img_id img) = selectedImageId castleReady \<longrightarrow>
                flippedHorizontally img \<noteq> None"
    by (simp add: castleReady_images completedFromText_def blankSprite_def Let_def)
  from flip_twice_restores [OF a] d
  have "handleFlipSelected (handleFlipSelected castleReady) = castleReady"
    by blast
  then show ?thesis using a b c by simp
qed

subsection \<open>Scaling from the top-left corner\<close>



end
